theory Spec2Isabelle
  imports Main
begin

section \<open>JavaScript values\<close>

text \<open>
  The API client (apiService.js) handles dynamically typed values: whatever the backend
  sends, parsed by JSON.parse, and the object literals the client builds itself. A value
  is a finite tree. Numbers are restricted to integers, printed in plain decimal notation;
  an object is the list of its own properties in insertion order.
\<close>

datatype json =
    JUndefined
  | JNull
  | JBool bool
  | JNum int
  | JStr string
  | JArr "json list"
  | JObj "(string \<times> json) list"

text \<open>A thrown JavaScript error; every kind carries its message.\<close>

datatype exn = Error string | TypeError string | SyntaxError string

fun message :: "exn \<Rightarrow> string" where
  "message (Error m) = m"
| "message (TypeError m) = m"
| "message (SyntaxError m) = m"

text \<open>Truthiness, as tested by \<open>if (v)\<close>, \<open>!v\<close>, \<open>a || b\<close> and \<open>a && b\<close>.\<close>

fun truthy :: "json \<Rightarrow> bool" where
  "truthy JUndefined = False"
| "truthy JNull = False"
| "truthy (JBool b) = b"
| "truthy (JNum n) = (n \<noteq> 0)"
| "truthy (JStr s) = (s \<noteq> [])"
| "truthy (JArr xs) = True"
| "truthy (JObj kvs) = True"

fun nullish :: "json \<Rightarrow> bool" where
  "nullish JUndefined = True"
| "nullish JNull = True"
| "nullish v = False"

text \<open>\<open>Array.isArray(v)\<close> and the elements of an array.\<close>

fun isArray :: "json \<Rightarrow> bool" where
  "isArray (JArr xs) = True"
| "isArray v = False"

fun elems :: "json \<Rightarrow> json list" where
  "elems (JArr xs) = xs"
| "elems v = []"

text \<open>
  \<open>v?.k\<close>: the property \<open>k\<close> of \<open>v\<close>, \<open>undefined\<close> when \<open>v\<close> has no such property or is
  \<open>null\<close>/\<open>undefined\<close>. The client reads data keys only (never \<open>length\<close> or a prototype
  member), so arrays and primitive values have none of the keys asked for.
\<close>

fun field :: "json \<Rightarrow> string \<Rightarrow> json" where
  "field (JObj kvs) k = (case map_of kvs k of Some v \<Rightarrow> v | None \<Rightarrow> JUndefined)"
| "field v k = JUndefined"

text \<open>\<open>v.k\<close> without a guard: reading a property of \<open>null\<close> or \<open>undefined\<close> throws.\<close>

definition member :: "json \<Rightarrow> string \<Rightarrow> exn + json" where
  "member v k =
     (if nullish v then Inl (TypeError ''Cannot read properties of null or undefined'')
      else Inr (field v k))"

text \<open>\<open>a || b\<close> and \<open>a ?? b\<close> on values.\<close>

definition or_js :: "json \<Rightarrow> json \<Rightarrow> json" where
  "or_js a b = (if truthy a then a else b)"

definition coalesce :: "json \<Rightarrow> json \<Rightarrow> json" where
  "coalesce a b = (if nullish a then b else a)"

text \<open>Decimal notation of a number, as a template literal or \<open>String(n)\<close> prints it.\<close>

fun string_of_nat :: "nat \<Rightarrow> string" where
  "string_of_nat n =
     (if n < 10 then [''0123456789'' ! n]
      else string_of_nat (n div 10) @ [''0123456789'' ! (n mod 10)])"

declare string_of_nat.simps [simp del]

definition string_of_int :: "int \<Rightarrow> string" where
  "string_of_int i = (if i < 0 then CHR ''-'' # string_of_nat (nat (- i)) else string_of_nat (nat i))"

fun join_comma :: "string list \<Rightarrow> string" where
  "join_comma [] = []"
| "join_comma [s] = s"
| "join_comma (s # t # ss) = s @ '','' @ join_comma (t # ss)"

text \<open>
  The text of a value that converts to a string without more ado: a string, \<open>null\<close>,
  \<open>undefined\<close>, a boolean, an integer below \<open>10^21\<close>, an object with no property
  \<open>toString\<close>, an array of such values. \<open>ToString\<close> below is the conversion on every value.
\<close>

fun String_js :: "json \<Rightarrow> string" where
  "String_js JUndefined = ''undefined''"
| "String_js JNull = ''null''"
| "String_js (JBool b) = (if b then ''true'' else ''false'')"
| "String_js (JNum n) = string_of_int n"
| "String_js (JStr s) = s"
| "String_js (JArr xs) = join_comma (map (\<lambda>x. if nullish x then [] else String_js x) xs)"
| "String_js (JObj kvs) = ''[object Object]''"

text \<open>
  \<open>String(v)\<close>, also the conversion inside a template literal, on every value. An object
  parsed from JSON that has a property \<open>toString\<close> of its own has one that cannot be called,
  and the inherited \<open>valueOf\<close> returns the object itself: the conversion throws a TypeError.
  From \<open>10^21\<close> on a number is printed in exponent notation, by the engine's printer \<open>pr\<close>.
  An array joins the texts of its elements, \<open>null\<close> and \<open>undefined\<close> giving the empty text.
\<close>

fun ToString :: "(int \<Rightarrow> string) \<Rightarrow> json \<Rightarrow> exn + string"
  and ToString_elems :: "(int \<Rightarrow> string) \<Rightarrow> json list \<Rightarrow> exn + string list" where
  "ToString pr JUndefined = Inr ''undefined''"
| "ToString pr JNull = Inr ''null''"
| "ToString pr (JBool b) = Inr (if b then ''true'' else ''false'')"
| "ToString pr (JNum n) = Inr (if \<bar>n\<bar> < 10 ^ 21 then string_of_int n else pr n)"
| "ToString pr (JStr s) = Inr s"
| "ToString pr (JArr xs) =
     (case ToString_elems pr xs of Inl e \<Rightarrow> Inl e | Inr ss \<Rightarrow> Inr (join_comma ss))"
| "ToString pr (JObj kvs) =
     (if map_of kvs ''toString'' \<noteq> None
      then Inl (TypeError ''Cannot convert object to primitive value'')
      else Inr ''[object Object]'')"
| "ToString_elems pr [] = Inr []"
| "ToString_elems pr (x # xs) =
     (case (if nullish x then Inr [] else ToString pr x) of
        Inl e \<Rightarrow> Inl e
      | Inr s \<Rightarrow> (case ToString_elems pr xs of Inl e \<Rightarrow> Inl e | Inr ss \<Rightarrow> Inr (s # ss)))"

text \<open>\<open>xs.map(f)\<close> where the callback may throw: the first throw aborts the map.\<close>

fun mapE :: "('a \<Rightarrow> exn + 'b) \<Rightarrow> 'a list \<Rightarrow> exn + 'b list" where
  "mapE f [] = Inr []"
| "mapE f (x # xs) =
     (case f x of
        Inl e \<Rightarrow> Inl e
      | Inr y \<Rightarrow> (case mapE f xs of Inl e \<Rightarrow> Inl e | Inr ys \<Rightarrow> Inr (y # ys)))"

section \<open>The environment: network, durable storage, library functions\<close>

text \<open>
  What \<open>fetch(url, options)\<close> is called with. The body is kept as the value handed to
  \<open>JSON.stringify\<close> (which is total on tree-shaped values), not as its serialisation.
\<close>

record http_request =
  rq_url :: string
  rq_method :: string
  rq_headers :: "(string \<times> string) list"
  rq_body :: "json option"

text \<open>
  What one \<open>fetch\<close> does: it rejects with a message (DNS, timeout, connection reset), or
  it resolves to a response with a status code whose body read either rejects with a
  message (\<open>Inl\<close>) or yields the raw text (\<open>Inr\<close>).
\<close>

datatype fetch_outcome = Rejects string | Responds nat "string + string"

text \<open>\<open>res.ok\<close>: the status is in the range 200 to 299.\<close>

definition res_ok :: "nat \<Rightarrow> bool" where
  "res_ok st = (200 \<le> st \<and> st \<le> 299)"

text \<open>
  Library functions the client calls and does not define: \<open>JSON.parse\<close> (\<open>None\<close> when it
  throws a SyntaxError), \<open>new URLSearchParams(params).toString()\<close>, the engine's printing of
  a number, consulted from \<open>10^21\<close> on, and \<open>normalizeAppointment\<close>, imported from a
  module of its own, which may throw; it is taken as a function of the element alone.
\<close>

record lib =
  JSON_parse :: "string \<Rightarrow> json option"
  URLSearchParams_toString :: "json \<Rightarrow> string"
  Number_toString :: "int \<Rightarrow> string"
  normalizeAppointment :: "json \<Rightarrow> exn + json"

text \<open>
  The state the client runs in: the module variable \<open>authToken\<close>; the contents of
  AsyncStorage; for the coming AsyncStorage calls, whether each one rejects (none left: it
  succeeds); the outcomes of the coming \<open>fetch\<close> calls, in order (none left: the network is
  down); the log of every request handed to \<open>fetch\<close> so far; and whether the read of the
  stored token that the module issues when it is loaded is still under way.
\<close>

record world =
  authToken :: json
  storage :: "string \<Rightarrow> json option"
  storage_faults :: "bool list"
  network :: "fetch_outcome list"
  sent :: "http_request list"
  loading :: bool

text \<open>An asynchronous computation: it runs in a world, and returns or throws.\<close>

type_synonym 'a io = "world \<Rightarrow> (exn + 'a) \<times> world"

definition returnIO :: "'a \<Rightarrow> 'a io" where
  "returnIO x w = (Inr x, w)"

definition throwIO :: "exn \<Rightarrow> 'a io" where
  "throwIO e w = (Inl e, w)"

definition liftE :: "exn + 'a \<Rightarrow> 'a io" where
  "liftE r w = (r, w)"

definition bindIO :: "'a io \<Rightarrow> ('a \<Rightarrow> 'b io) \<Rightarrow> 'b io" where
  "bindIO m f w = (case m w of (Inl e, w') \<Rightarrow> (Inl e, w') | (Inr x, w') \<Rightarrow> f x w')"

text \<open>\<open>try { m } catch (e) { h(e) }\<close>\<close>

definition tryCatch :: "'a io \<Rightarrow> (exn \<Rightarrow> 'a io) \<Rightarrow> 'a io" where
  "tryCatch m h w = (case m w of (Inl e, w') \<Rightarrow> h e w' | (Inr x, w') \<Rightarrow> (Inr x, w'))"

text \<open>
  The anonymous function run when the module is loaded: it awaits
  \<open>AsyncStorage.getItem('authToken')\<close> and, when the stored token is truthy, assigns it to
  \<open>authToken\<close>. The read is issued before any call of the client, so it is over, and this
  continuation has run, by the time the first awaited call of the client is over; it then
  overwrites whatever the client assigned to \<open>authToken\<close> before awaiting. A read that
  rejects is caught and changes nothing, as in a world where no read is under way.
\<close>

definition startup_load :: "world \<Rightarrow> world" where
  "startup_load w =
     (if loading w then
        (case storage w ''authToken'' of
           Some token \<Rightarrow>
             if truthy token then w\<lparr>authToken := token, loading := False\<rparr>
             else w\<lparr>loading := False\<rparr>
         | None \<Rightarrow> w\<lparr>loading := False\<rparr>)
      else w)"

definition fetch :: "http_request \<Rightarrow> (nat \<times> (string + string)) io" where
  "fetch rq w0 =
     (let w = startup_load w0 in
      let w1 = w\<lparr>sent := sent w @ [rq]\<rparr> in
      case network w of
        [] \<Rightarrow> (Inl (TypeError ''Network request failed''), w1)
      | Rejects m # rest \<Rightarrow> (Inl (TypeError m), w1\<lparr>network := rest\<rparr>)
      | Responds st t # rest \<Rightarrow> (Inr (st, t), w1\<lparr>network := rest\<rparr>))"

text \<open>\<open>await res.text()\<close> and \<open>await response.json()\<close> on the body of a response.\<close>

definition response_text :: "string + string \<Rightarrow> string io" where
  "response_text t = (case t of Inl m \<Rightarrow> throwIO (TypeError m) | Inr text \<Rightarrow> returnIO text)"

definition response_json :: "lib \<Rightarrow> string + string \<Rightarrow> json io" where
  "response_json L t =
     (case t of
        Inl m \<Rightarrow> throwIO (TypeError m)
      | Inr text \<Rightarrow>
          (case JSON_parse L text of
             None \<Rightarrow> throwIO (SyntaxError ''JSON Parse error'')
           | Some v \<Rightarrow> returnIO v))"

definition storage_call :: "((string \<Rightarrow> json option) \<Rightarrow> (string \<Rightarrow> json option)) \<Rightarrow> unit io" where
  "storage_call upd w0 =
     (let w = startup_load w0 in
      case storage_faults w of
        [] \<Rightarrow> (Inr (), w\<lparr>storage := upd (storage w)\<rparr>)
      | True # fs \<Rightarrow> (Inl (Error ''AsyncStorage failure''), w\<lparr>storage_faults := fs\<rparr>)
      | False # fs \<Rightarrow> (Inr (), w\<lparr>storage := upd (storage w), storage_faults := fs\<rparr>))"

definition AsyncStorage_setItem :: "string \<Rightarrow> json \<Rightarrow> unit io" where
  "AsyncStorage_setItem k v = storage_call (\<lambda>m. m(k \<mapsto> v))"

definition AsyncStorage_removeItem :: "string \<Rightarrow> unit io" where
  "AsyncStorage_removeItem k = storage_call (\<lambda>m. m(k := None))"

section \<open>Token management\<close>

definition API_BASE_URL :: string where
  "API_BASE_URL = ''https://field-inspections-backend-production.up.railway.app/api''"

definition setAuthToken :: "json \<Rightarrow> unit io" where
  "setAuthToken token w =
     tryCatch
       (if truthy token then AsyncStorage_setItem ''authToken'' token
        else AsyncStorage_removeItem ''authToken'')
       (\<lambda>error. returnIO ())
       (w\<lparr>authToken := token\<rparr>)"

definition clearAuthToken :: "unit io" where
  "clearAuthToken w =
     tryCatch (AsyncStorage_removeItem ''authToken'') (\<lambda>error. returnIO ())
       (w\<lparr>authToken := JNull\<rparr>)"

definition getCurrentToken :: "world \<Rightarrow> json" where
  "getCurrentToken w = authToken w"

definition verifyTokenWithBackend :: "lib \<Rightarrow> json \<Rightarrow> json io" where
  "verifyTokenWithBackend L token =
     tryCatch
       (bindIO
          (fetch \<lparr>rq_url = API_BASE_URL @ ''/verify-token'',
                  rq_method = ''POST'',
                  rq_headers = [(''Content-Type'', ''application/json'')],
                  rq_body = Some (JObj [(''token'', token)])\<rparr>)
          (\<lambda>(st, t). response_json L t))
       (\<lambda>error. returnIO (JObj [(''success'', JBool False), (''error'', JStr (message error))]))"

section \<open>The request wrapper\<close>

definition request_options :: "json \<Rightarrow> string \<Rightarrow> string \<Rightarrow> json \<Rightarrow> http_request" where
  "request_options tok method endpoint body =
     \<lparr>rq_url = API_BASE_URL @ endpoint,
      rq_method = method,
      rq_headers =
        (''Content-Type'', ''application/json'') #
        (if truthy tok then [(''Authorization'', ''Bearer '' @ String_js tok)] else []),
      rq_body = (if truthy body then Some body else None)\<rparr>"

definition parse_or_null :: "lib \<Rightarrow> string \<Rightarrow> json" where
  "parse_or_null L text =
     (if text \<noteq> [] then (case JSON_parse L text of Some v \<Rightarrow> v | None \<Rightarrow> JNull) else JNull)"

definition classify :: "nat \<Rightarrow> json \<Rightarrow> json" where
  "classify st json =
     (if \<not> res_ok st then
        JObj [(''success'', JBool False),
              (''error'', or_js (field json ''error'')
                            (JStr (''Request failed with status '' @ string_of_nat st))),
              (''status'', JNum (int st)),
              (''data'', json)]
      else or_js json (JObj [(''success'', JBool True)]))"

text \<open>The \<open>try\<close> block of \<open>request\<close>, entered with the options built.\<close>

definition send :: "lib \<Rightarrow> http_request \<Rightarrow> json io" where
  "send L options =
     tryCatch
       (bindIO (fetch options)
          (\<lambda>(st, t). bindIO (response_text t)
             (\<lambda>text. returnIO (classify st (parse_or_null L text)))))
       (\<lambda>err. returnIO (JObj [(''success'', JBool False),
                               (''error'', JStr (message err)),
                               (''networkError'', JBool True)]))"

text \<open>
  \<open>request(method, endpoint, body)\<close> as the operations of the client call it: with a body
  that is a finite tree, and read for a held token whose conversion to a string does not
  throw, so that the options are always built.
\<close>

definition request :: "lib \<Rightarrow> string \<Rightarrow> string \<Rightarrow> json \<Rightarrow> json io" where
  "request L method endpoint body w =
     send L (request_options (authToken w) method endpoint body) w"

text \<open>
  What a caller may hand over as the body: a finite tree, or an object that contains
  itself, which is truthy and on which \<open>JSON.stringify\<close> throws a TypeError.
\<close>

datatype argument = Plain json | Circular

text \<open>
  \<open>request(method, endpoint, body)\<close> on every held token and every body. The headers are
  built first, with the template literal \<open>`Bearer ${authToken}`\<close>, then the body is
  serialised; both happen before the \<open>try\<close> block, where a throw reaches the caller.
\<close>

definition authorization :: "lib \<Rightarrow> json \<Rightarrow> exn + (string \<times> string) list" where
  "authorization L tok =
     (if truthy tok then
        (case ToString (Number_toString L) tok of
           Inl e \<Rightarrow> Inl e
         | Inr s \<Rightarrow> Inr [(''Authorization'', ''Bearer '' @ s)])
      else Inr [])"

definition serialised :: "argument \<Rightarrow> exn + json option" where
  "serialised body =
     (case body of
        Plain v \<Rightarrow> Inr (if truthy v then Some v else None)
      | Circular \<Rightarrow> Inl (TypeError ''Converting circular structure to JSON''))"

definition request_any :: "lib \<Rightarrow> string \<Rightarrow> string \<Rightarrow> argument \<Rightarrow> json io" where
  "request_any L method endpoint body w =
     (case authorization L (authToken w) of
        Inl e \<Rightarrow> throwIO e w
      | Inr auth \<Rightarrow>
          (case serialised body of
             Inl e \<Rightarrow> throwIO e w
           | Inr b \<Rightarrow>
               send L \<lparr>rq_url = API_BASE_URL @ endpoint,
                        rq_method = method,
                        rq_headers = (''Content-Type'', ''application/json'') # auth,
                        rq_body = b\<rparr> w))"

section \<open>Login\<close>

definition login :: "lib \<Rightarrow> json \<Rightarrow> json \<Rightarrow> json io" where
  "login L email password =
     bindIO (request L ''POST'' ''/login'' (JObj [(''email'', email), (''password'', password)]))
       (\<lambda>result.
          if \<not> truthy result \<or> \<not> truthy (field result ''success'') then returnIO result
          else
            bindIO
              (if truthy (field result ''token'') then
                 bindIO (setAuthToken (field result ''token''))
                   (\<lambda>_ w.
                      (let currentToken = getCurrentToken w in
                       if truthy currentToken then
                         bindIO (verifyTokenWithBackend L currentToken)
                           (\<lambda>verification.
                              bindIO (liftE (member verification ''success''))
                                (\<lambda>valid.
                                   if \<not> truthy valid then
                                     bindIO clearAuthToken
                                       (\<lambda>_. returnIO
                                          (Some (JObj [(''success'', JBool False),
                                                       (''error'', JStr ''Token validation failed. Please try again.'')])))
                                   else returnIO None))
                           w
                       else returnIO None w))
               else returnIO None)
              (\<lambda>early.
                 case early of
                   Some failure \<Rightarrow> returnIO failure
                 | None \<Rightarrow>
                     if field result ''role'' = JStr ''admin'' then
                       returnIO (JObj [(''success'', JBool True), (''role'', JStr ''admin''),
                                       (''token'', field result ''token'')])
                     else if field result ''role'' = JStr ''tech'' \<and> truthy (field result ''technician'') then
                       returnIO (JObj [(''success'', JBool True), (''role'', JStr ''tech''),
                                       (''token'', field result ''token''),
                                       (''technician'', field result ''technician'')])
                     else if field result ''role'' = JStr ''customer'' \<and> truthy (field result ''customer'') then
                       returnIO (JObj [(''success'', JBool True), (''role'', JStr ''customer''),
                                       (''token'', field result ''token''),
                                       (''customer'', field result ''customer'')])
                     else returnIO (JObj [(''success'', JBool False),
                                          (''error'', JStr ''Invalid credentials'')])))"

section \<open>List operations\<close>

text \<open>
  The callback of \<open>customersArray.map\<close>: reading \<open>c.customerId\<close> throws on a \<open>null\<close> element,
  and \<open>String(...)\<close> throws on an identifier that does not convert to a string.
\<close>

definition formatCustomer :: "lib \<Rightarrow> json \<Rightarrow> exn + json" where
  "formatCustomer L c =
     (if nullish c then Inl (TypeError ''Cannot read properties of null or undefined'')
      else
      case ToString (Number_toString L)
             (coalesce (field c ''customerId'')
                (coalesce (field c ''id'') (coalesce (field c ''customer_id'') (JStr [])))) of
        Inl e \<Rightarrow> Inl e
      | Inr customerId \<Rightarrow> Inr (JObj
        [(''customerId'', JStr customerId),
         (''customerName'',
            coalesce (field c ''customerName'')
              (coalesce (field c ''name'') (coalesce (field c ''customer_name'') (JStr ''Unknown Customer'')))),
         (''email'', coalesce (field c ''email'') (JStr [])),
         (''address'', coalesce (field c ''address'') (JStr [])),
         (''telephone'', coalesce (field c ''telephone'') (JStr [])),
         (''complianceValidUntil'',
            coalesce (field c ''complianceValidUntil'') (coalesce (field c ''compliance_valid_until'') JNull)),
         (''maps'', if isArray (field c ''maps'') then field c ''maps'' else JArr [])]))"

definition customersArray :: "json \<Rightarrow> json list" where
  "customersArray res =
     (if isArray res then elems res
      else if truthy res \<and> isArray (field res ''data'') then elems (field res ''data'')
      else if truthy res \<and> isArray (field res ''customers'') then elems (field res ''customers'')
      else if truthy res \<and> truthy (field res ''success'') \<and> truthy (field res ''data'')
              \<and> isArray (field res ''data'') then elems (field res ''data'')
      else [])"

definition getCustomers :: "lib \<Rightarrow> json io" where
  "getCustomers L =
     bindIO (request L ''GET'' ''/customers'' JNull)
       (\<lambda>res.
          if truthy res \<and> field res ''success'' = JBool False then returnIO (JArr [])
          else bindIO (liftE (mapE (formatCustomer L) (customersArray res)))
                 (\<lambda>formattedCustomers. returnIO (JArr formattedCustomers)))"

definition getTechnicians :: "lib \<Rightarrow> json io" where
  "getTechnicians L =
     bindIO (request L ''GET'' ''/admin/technicians'' JNull)
       (\<lambda>res.
          if \<not> truthy res then returnIO (JArr [])
          else if isArray res then returnIO res
          else if truthy (field res ''technicians'') \<and> isArray (field res ''technicians'') then
            returnIO (field res ''technicians'')
          else if truthy (field res ''success'') \<and> isArray (field res ''data'') then
            returnIO (field res ''data'')
          else if field res ''success'' = JBool False then returnIO (JArr [])
          else returnIO (JArr []))"

definition appointmentsArray :: "json \<Rightarrow> json list" where
  "appointmentsArray res =
     (if isArray res then elems res
      else if truthy res \<and> isArray (field res ''appointments'') then elems (field res ''appointments'')
      else if truthy res \<and> truthy (field res ''success'') \<and> isArray (field res ''data'') then
        elems (field res ''data'')
      else [])"

definition getAppointments :: "lib \<Rightarrow> json \<Rightarrow> json io" where
  "getAppointments L params =
     (let query = URLSearchParams_toString L params in
      let endpoint = (if query \<noteq> [] then ''/appointments?'' @ query else ''/appointments'') in
      bindIO (request L ''GET'' endpoint JNull)
           (\<lambda>res. bindIO (liftE (mapE (normalizeAppointment L) (appointmentsArray res)))
              (\<lambda>normalized. returnIO (JArr normalized))))"

definition getBaitTypes :: "lib \<Rightarrow> json io" where
  "getBaitTypes L =
     tryCatch
       (bindIO (request L ''GET'' ''/materials/bait-types'' JNull)
          (\<lambda>res.
             if field res ''success'' = JBool True \<and> isArray (field res ''baitTypes'') then
               returnIO (field res ''baitTypes'')
             else if isArray res then returnIO res
             else if isArray (field res ''baitTypes'') then returnIO (field res ''baitTypes'')
             else if field res ''success'' = JBool True \<and> isArray (field res ''data'') then
               returnIO (field res ''data'')
             else if field res ''success'' = JBool True \<and> isArray (field res ''types'') then
               returnIO (field res ''types'')
             else returnIO (JArr [])))
       (\<lambda>error. returnIO (JArr []))"

definition getChemicals :: "lib \<Rightarrow> json io" where
  "getChemicals L =
     bindIO (request L ''GET'' ''/materials/chemicals'' JNull)
       (\<lambda>res.
          if \<not> truthy res then returnIO (JArr [])
          else if isArray res then returnIO res
          else if truthy (field res ''chemicals'') \<and> isArray (field res ''chemicals'') then
            returnIO (field res ''chemicals'')
          else if truthy (field res ''success'') \<and> isArray (field res ''data'') then
            returnIO (field res ''data'')
          else if field res ''success'' = JBool False then returnIO (JArr [])
          else returnIO (JArr []))"

text \<open>
  The callback of the name extraction: \<open>typeof item === 'string' ? item : (item.name || item)\<close>.
\<close>

definition item_name :: "json \<Rightarrow> exn + json" where
  "item_name item =
     (case item of
        JStr s \<Rightarrow> Inr item
      | _ \<Rightarrow> (case member item ''name'' of Inl e \<Rightarrow> Inl e | Inr n \<Rightarrow> Inr (or_js n item)))"

definition getBaitTypeNames :: "lib \<Rightarrow> json io" where
  "getBaitTypeNames L =
     tryCatch
       (bindIO (getBaitTypes L)
          (\<lambda>result.
             if truthy (field result ''success'') \<and> isArray (field result ''types'') then
               bindIO (liftE (mapE item_name (elems (field result ''types''))))
                 (\<lambda>names. returnIO (JArr names))
             else returnIO (JArr [])))
       (\<lambda>error. returnIO (JArr []))"

definition getChemicalNames :: "lib \<Rightarrow> json io" where
  "getChemicalNames L =
     tryCatch
       (bindIO (getChemicals L)
          (\<lambda>result.
             if truthy (field result ''success'') \<and> isArray (field result ''chemicals'') then
               bindIO (liftE (mapE item_name (elems (field result ''chemicals''))))
                 (\<lambda>names. returnIO (JArr names))
             else returnIO (JArr [])))
       (\<lambda>error. returnIO (JArr []))"

section \<open>Station logging\<close>

definition stationData :: "json \<Rightarrow> (string \<times> json) list" where
  "stationData data =
     [(''timestamp'', field data ''timestamp''),
      (''customerId'', field data ''customerId''),
      (''customerName'', or_js (field data ''customerName'') (JStr [])),
      (''stationId'', field data ''stationId''),
      (''stationType'', JStr ''BS''),
      (''consumption'', or_js (field data ''consumption'') (JStr [])),
      (''baitType'', or_js (field data ''baitType'') (JStr [])),
      (''condition'', or_js (field data ''condition'') (JStr [])),
      (''access'', or_js (field data ''access'') (JStr [])),
      (''technicianId'', field data ''technicianId''),
      (''technicianName'', or_js (field data ''technicianName'') (JStr [])),
      (''appointmentId'', or_js (field data ''appointmentId'') (JStr [])),
      (''visitId'', field data ''visitId''),
      (''isVisitSummary'', JBool False)]"

definition fallbackData :: "json \<Rightarrow> json" where
  "fallbackData data =
     JObj (stationData data @ [(''action'', JStr ''station-log''), (''serviceType'', JStr ''myocide'')])"

text \<open>One of the first two attempts: the result when it reports success, else nothing.\<close>

definition try_endpoint :: "lib \<Rightarrow> string \<Rightarrow> json \<Rightarrow> json option io" where
  "try_endpoint L endpoint payload =
     tryCatch
       (bindIO (request L ''POST'' endpoint payload)
          (\<lambda>result. returnIO (if truthy (field result ''success'') then Some result else None)))
       (\<lambda>error. returnIO None)"

definition logBaitStation :: "lib \<Rightarrow> json \<Rightarrow> json io" where
  "logBaitStation L data =
     (if nullish data then throwIO (TypeError ''Cannot read properties of null or undefined'')
      else
        bindIO (try_endpoint L ''/station-logs'' (JObj (stationData data)))
          (\<lambda>first.
             case first of
               Some result \<Rightarrow> returnIO result
             | None \<Rightarrow>
                 bindIO (try_endpoint L ''/log-station'' (JObj (stationData data)))
                   (\<lambda>second.
                      case second of
                        Some result \<Rightarrow> returnIO result
                      | None \<Rightarrow>
                          tryCatch (request L ''POST'' ''/log'' (fallbackData data))
                            (\<lambda>error. returnIO
                               (JObj [(''success'', JBool False),
                                      (''error'', JStr ''No endpoint available to save station data'')])))))"

text \<open>What \<open>if (result?.success)\<close> tests on one attempt: it returned a value whose \<open>success\<close> is truthy.\<close>

definition reports_success :: "(exn + json) \<times> world \<Rightarrow> bool" where
  "reports_success attempt =
     (case fst attempt of Inr v \<Rightarrow> truthy (field v ''success'') | Inl e \<Rightarrow> False)"

section \<open>The specification's wording, where it is compared with the code\<close>

text \<open>
  The \<open>error\<close> of a failure envelope as the specification words it: the \<open>error\<close> field of
  the parsed body when present, else the message "request failed with status N".
\<close>

definition spec_failure_error :: "json \<Rightarrow> nat \<Rightarrow> json" where
  "spec_failure_error json st =
     (if field json ''error'' \<noteq> JUndefined then field json ''error''
      else JStr (''request failed with status '' @ string_of_nat st))"

text \<open>
  The result on a 2xx response as the specification words it: the parsed body when it is
  an object (an array is one), else the minimal envelope.
\<close>

definition spec_success_value :: "json \<Rightarrow> json" where
  "spec_success_value json =
     (case json of
        JObj kvs \<Rightarrow> json
      | JArr xs \<Rightarrow> json
      | _ \<Rightarrow> JObj [(''success'', JBool True)])"

section \<open>Sample environments\<close>

text \<open>
  \<open>JSON.parse\<close> on the response texts of the examples below; any other text stands for a
  body that is not JSON (an HTML error page, say). No example holds a number from \<open>10^21\<close>
  on but \<open>10^21\<close> itself, printed \<open>1e+21\<close>; no example passes query parameters; and
  \<open>normalizeAppointment\<close> is stood for by the identity.
\<close>

definition sample_parse :: "string \<Rightarrow> json option" where
  \<open>sample_parse text =
     map_of
       [(''{"error":"Not found"}'', JObj [(''error'', JStr ''Not found'')]),
        (''{"error":""}'', JObj [(''error'', JStr [])]),
        (''42'', JNum 42),
        (''{"data":[{}]}'', JObj [(''data'', JArr [JObj []])]),
        (''{"success":false}'', JObj [(''success'', JBool False)]),
        (''{"success":true}'', JObj [(''success'', JBool True)]),
        (''{"success":false,"technicians":[{}]}'',
           JObj [(''success'', JBool False), (''technicians'', JArr [JObj []])]),
        (''[{"id":"5","name":"Acme"}]'',
           JArr [JObj [(''id'', JStr ''5''), (''name'', JStr ''Acme'')]]),
        (''{"success":true,"token":"t1","role":"admin"}'',
           JObj [(''success'', JBool True), (''token'', JStr ''t1''), (''role'', JStr ''admin'')]),
        (''{"technicians":[{"id":1}]}'', JObj [(''technicians'', JArr [JObj [(''id'', JNum 1)]])]),
        (''{"success":true,"data":[{"id":1},{"id":2}]}'',
           JObj [(''success'', JBool True),
                 (''data'', JArr [JObj [(''id'', JNum 1)], JObj [(''id'', JNum 2)]])]),
        (''{"appointments":[{"id":1}]}'', JObj [(''appointments'', JArr [JObj [(''id'', JNum 1)]])]),
        (''{"success":true,"baitTypes":[{"name":"Wax block"}]}'',
           JObj [(''success'', JBool True),
                 (''baitTypes'', JArr [JObj [(''name'', JStr ''Wax block'')]])]),
        (''{"success":true,"chemicals":[{"name":"Permethrin"}]}'',
           JObj [(''success'', JBool True),
                 (''chemicals'', JArr [JObj [(''name'', JStr ''Permethrin'')]])]),
        (''{"success":"false"}'', JObj [(''success'', JStr ''false'')]),
        (''[{"id":"5","name":"Acme","compliance_valid_until":"2025-01-01"}]'',
           JArr [JObj [(''id'', JStr ''5''), (''name'', JStr ''Acme''),
                       (''compliance_valid_until'', JStr ''2025-01-01'')]]),
        (''{"customers":[{"customerId":7,"maps":[{"mapId":1}]},{"customer_id":"c9","email":"a@b.c"}]}'',
           JObj [(''customers'',
              JArr [JObj [(''customerId'', JNum 7), (''maps'', JArr [JObj [(''mapId'', JNum 1)]])],
                    JObj [(''customer_id'', JStr ''c9''), (''email'', JStr ''a@b.c'')]])])]
       text\<close>

definition sample_lib :: lib where
  "sample_lib =
     \<lparr>JSON_parse = sample_parse,
      URLSearchParams_toString = (\<lambda>params. []),
      Number_toString = (\<lambda>n. ''1e+21''),
      normalizeAppointment = (\<lambda>a. Inr a)\<rparr>"

text \<open>A world holding the given token, with the given outcomes for the coming requests.\<close>

definition sample_world :: "json \<Rightarrow> fetch_outcome list \<Rightarrow> world" where
  "sample_world tok outcomes =
     \<lparr>authToken = tok, storage = Map.empty, storage_faults = [], network = outcomes, sent = [],
      loading = False\<rparr>"

text \<open>
  A world whose durable storage holds the token in use, if there is one, and whose coming
  AsyncStorage calls fail as given.
\<close>

definition stored_world :: "json \<Rightarrow> bool list \<Rightarrow> fetch_outcome list \<Rightarrow> world" where
  "stored_world tok faults outcomes =
     \<lparr>authToken = tok,
      storage = (if truthy tok then [''authToken'' \<mapsto> tok] else Map.empty),
      storage_faults = faults,
      network = outcomes, sent = [], loading = False\<rparr>"

text \<open>
  A world in which the module has just been loaded: no token in memory yet, the given token
  in durable storage, and the start-up read of it still under way.
\<close>

definition starting_world :: "json \<Rightarrow> fetch_outcome list \<Rightarrow> world" where
  "starting_world stored outcomes =
     \<lparr>authToken = JNull, storage = [''authToken'' \<mapsto> stored], storage_faults = [],
      network = outcomes, sent = [], loading = True\<rparr>"

section \<open>How one call of the request wrapper runs\<close>

text \<open>The pending start-up read touches the token only, and is over once it has run.\<close>

lemma startup_load_fields [simp]:
  "storage (startup_load w) = storage w"
  "storage_faults (startup_load w) = storage_faults w"
  "network (startup_load w) = network w"
  "sent (startup_load w) = sent w"
  "loading (startup_load w) = False"
  by (simp_all add: startup_load_def split: option.split)

lemma startup_load_idle [simp]: "\<not> loading w \<Longrightarrow> startup_load w = w"
  by (simp add: startup_load_def)

text \<open>
  The wrapper consumes the next network outcome, logs the request it built, and always
  returns a value: one lemma for each kind of outcome.
\<close>

lemma send_responds:
  "network w = Responds st (Inr text) # rest \<Longrightarrow>
   send L options w =
     (Inr (classify st (parse_or_null L text)),
      (startup_load w)\<lparr>sent := sent w @ [options], network := rest\<rparr>)"
  by (simp add: send_def tryCatch_def bindIO_def fetch_def response_text_def returnIO_def Let_def)

lemma send_unreadable:
  "network w = Responds st (Inl msg) # rest \<Longrightarrow>
   send L options w =
     (Inr (JObj [(''success'', JBool False), (''error'', JStr msg), (''networkError'', JBool True)]),
      (startup_load w)\<lparr>sent := sent w @ [options], network := rest\<rparr>)"
  by (simp add: send_def tryCatch_def bindIO_def fetch_def response_text_def returnIO_def
      throwIO_def Let_def)

lemma send_rejects:
  "network w = Rejects msg # rest \<Longrightarrow>
   send L options w =
     (Inr (JObj [(''success'', JBool False), (''error'', JStr msg), (''networkError'', JBool True)]),
      (startup_load w)\<lparr>sent := sent w @ [options], network := rest\<rparr>)"
  by (simp add: send_def tryCatch_def bindIO_def fetch_def response_text_def returnIO_def
      throwIO_def Let_def)

lemma send_down:
  "network w = [] \<Longrightarrow>
   send L options w =
     (Inr (JObj [(''success'', JBool False), (''error'', JStr ''Network request failed''),
                 (''networkError'', JBool True)]),
      (startup_load w)\<lparr>sent := sent w @ [options]\<rparr>)"
  by (simp add: send_def tryCatch_def bindIO_def fetch_def response_text_def returnIO_def
      throwIO_def Let_def)

lemma network_cases:
  obtains (down) "network w = []"
    | (rejects) msg rest where "network w = Rejects msg # rest"
    | (unreadable) st msg rest where "network w = Responds st (Inl msg) # rest"
    | (responds) st raw rest where "network w = Responds st (Inr raw) # rest"
proof (cases "network w")
  case Nil
  then show ?thesis by (rule down)
next
  case (Cons out outs)
  show ?thesis
  proof (cases out)
    case (Rejects msg)
    with Cons show ?thesis by (simp add: rejects)
  next
    case (Responds st t)
    with Cons show ?thesis by (cases t) (simp_all add: unreadable responds)
  qed
qed

lemma send_returns: "\<exists>v. fst (send L options w) = Inr v"
  by (cases w rule: network_cases)
    (simp_all add: send_down send_rejects send_unreadable send_responds)

lemma send_state:
  "sent (snd (send L options w)) = sent w @ [options]"
  "authToken (snd (send L options w)) = authToken (startup_load w)"
  "storage (snd (send L options w)) = storage w"
  "storage_faults (snd (send L options w)) = storage_faults w"
  "network (snd (send L options w)) = tl (network w)"
  "loading (snd (send L options w)) = False"
  by (cases w rule: network_cases;
      simp add: send_down send_rejects send_unreadable send_responds)+

lemma request_responds:
  "network w = Responds st (Inr text) # rest \<Longrightarrow>
   request L m e b w =
     (Inr (classify st (parse_or_null L text)),
      (startup_load w)\<lparr>sent := sent w @ [request_options (authToken w) m e b], network := rest\<rparr>)"
  by (simp add: request_def send_responds)

lemma request_unreadable:
  "network w = Responds st (Inl msg) # rest \<Longrightarrow>
   request L m e b w =
     (Inr (JObj [(''success'', JBool False), (''error'', JStr msg), (''networkError'', JBool True)]),
      (startup_load w)\<lparr>sent := sent w @ [request_options (authToken w) m e b], network := rest\<rparr>)"
  by (simp add: request_def send_unreadable)

lemma request_rejects:
  "network w = Rejects msg # rest \<Longrightarrow>
   request L m e b w =
     (Inr (JObj [(''success'', JBool False), (''error'', JStr msg), (''networkError'', JBool True)]),
      (startup_load w)\<lparr>sent := sent w @ [request_options (authToken w) m e b], network := rest\<rparr>)"
  by (simp add: request_def send_rejects)

lemma request_down:
  "network w = [] \<Longrightarrow>
   request L m e b w =
     (Inr (JObj [(''success'', JBool False), (''error'', JStr ''Network request failed''), (''networkError'', JBool True)]),
      (startup_load w)\<lparr>sent := sent w @ [request_options (authToken w) m e b]\<rparr>)"
  by (simp add: request_def send_down)

lemma request_returns: "\<exists>v. fst (request L m e b w) = Inr v"
  by (simp add: request_def send_returns)

lemma request_sent:
  "sent (snd (request L m e b w)) = sent w @ [request_options (authToken w) m e b]"
  by (simp add: request_def send_state)

lemma request_state:
  "authToken (snd (request L m e b w)) = authToken (startup_load w)"
  "storage (snd (request L m e b w)) = storage w"
  "storage_faults (snd (request L m e b w)) = storage_faults w"
  "network (snd (request L m e b w)) = tl (network w)"
  "loading (snd (request L m e b w)) = False"
  by (simp_all add: request_def send_state)

lemma request_pair: "\<exists>v w'. request L verb endpoint body w = (Inr v, w')"
  using request_returns [of L verb endpoint body w]
  by (cases "request L verb endpoint body w") auto

section \<open>The failure envelope of the request wrapper\<close>

text \<open>
  C3, as the code has it. For a response with a non-2xx status whose body text was read,
  \<open>request\<close> returns \<open>{success: false, error, status, data}\<close>: \<open>status\<close> is the HTTP status
  code, \<open>data\<close> is the parsed body or \<open>null\<close>, and \<open>error\<close> is the \<open>error\<close> field of the parsed
  body when that field is truthy, else the message "Request failed with status N".
\<close>

theorem request_failure_envelope:
  assumes "network w = Responds st (Inr text) # rest" and "\<not> res_ok st"
  shows "fst (request L verb endpoint body w) =
     Inr (JObj [(''success'', JBool False),
                (''error'', if truthy (field (parse_or_null L text) ''error'')
                            then field (parse_or_null L text) ''error''
                            else JStr (''Request failed with status '' @ string_of_nat st)),
                (''status'', JNum (int st)),
                (''data'', parse_or_null L text)])"
  using assms by (simp add: request_responds classify_def or_js_def)

text \<open>The 404 example of the specification: the backend's "Not found" is passed on.\<close>

theorem request_failure_envelope_witness:
  \<open>fst (request sample_lib ''GET'' ''/customers/7'' JNull
          (sample_world JNull [Responds 404 (Inr ''{"error":"Not found"}'')])) =
     Inr (JObj [(''success'', JBool False),
                (''error'', JStr ''Not found''),
                (''status'', JNum 404),
                (''data'', JObj [(''error'', JStr ''Not found'')])])\<close>
proof -
  have net: \<open>network (sample_world JNull [Responds 404 (Inr ''{"error":"Not found"}'')]) =
      Responds 404 (Inr ''{"error":"Not found"}'') # []\<close>
    by (simp add: sample_world_def)
  have bad: "\<not> res_ok 404"
    by (simp add: res_ok_def)
  from request_failure_envelope [OF net bad, of sample_lib "''GET''" "''/customers/7''" JNull]
  show ?thesis
    by (simp add: parse_or_null_def sample_lib_def sample_parse_def)
qed

text \<open>
  Against the wording of C3: an \<open>error\<close> field that is present but empty is replaced by the
  generic message, and the generic message starts with a capital letter.
\<close>

theorem request_failure_envelope_counterexample:
  \<open>fst (request sample_lib ''GET'' ''/customers/7'' JNull
          (sample_world JNull [Responds 500 (Inr ''{"error":""}'')])) \<noteq>
     Inr (JObj [(''success'', JBool False),
                (''error'', spec_failure_error (JObj [(''error'', JStr [])]) 500),
                (''status'', JNum 500),
                (''data'', JObj [(''error'', JStr [])])])
   \<and> fst (request sample_lib ''GET'' ''/customers/7'' JNull
          (sample_world JNull [Responds 404 (Inr [])])) \<noteq>
     Inr (JObj [(''success'', JBool False),
                (''error'', spec_failure_error JNull 404),
                (''status'', JNum 404),
                (''data'', JNull)])\<close>
  by (simp add: request_responds sample_world_def classify_def res_ok_def or_js_def
      parse_or_null_def sample_lib_def sample_parse_def spec_failure_error_def)

section \<open>Where the request wrapper throws\<close>

text \<open>With no token held, or with a string for a token, a call on a tree is the call above.\<close>

lemma request_any_request:
  "\<not> truthy (authToken w) \<or> authToken w = JStr t \<Longrightarrow>
   request_any L verb endpoint (Plain payload) w = request L verb endpoint payload w"
  by (auto simp add: request_any_def request_def request_options_def authorization_def
      serialised_def)

text \<open>
  C4, as the code has it. \<open>request\<close> raises an exception to its caller only before its
  \<open>try\<close> block: when the held token does not convert to a string, and when the body does
  not serialise; nothing is sent then. Once the options are built it never raises: it
  returns a value, a response body that is not valid JSON gives a \<open>null\<close> parsed payload and
  the call goes on to classify by status as usual, and a \<open>fetch\<close> that throws is caught and
  turned into the returned value \<open>{success: false, error: message, networkError: true}\<close>.
\<close>

theorem request_any_raises:
  "(truthy (authToken w) \<and> ToString (Number_toString L) (authToken w) = Inl e
      \<longrightarrow> request_any L verb endpoint body w = (Inl e, w))
   \<and> (\<not> truthy (authToken w) \<or> ToString (Number_toString L) (authToken w) = Inr s
      \<longrightarrow> request_any L verb endpoint Circular w =
            (Inl (TypeError ''Converting circular structure to JSON''), w)
        \<and> (\<exists>v. fst (request_any L verb endpoint (Plain payload) w) = Inr v)
        \<and> (network w = Responds st (Inr raw) # rest \<and> raw \<noteq> [] \<and> JSON_parse L raw = None
            \<longrightarrow> parse_or_null L raw = JNull
              \<and> fst (request_any L verb endpoint (Plain payload) w) =
                  Inr (if res_ok st then JObj [(''success'', JBool True)]
                       else JObj [(''success'', JBool False),
                                  (''error'', JStr (''Request failed with status '' @ string_of_nat st)),
                                  (''status'', JNum (int st)),
                                  (''data'', JNull)]))
        \<and> (network w = Rejects msg # rest
            \<longrightarrow> fst (request_any L verb endpoint (Plain payload) w) =
                  Inr (JObj [(''success'', JBool False), (''error'', JStr msg),
                             (''networkError'', JBool True)])))"
proof -
  have thrown: "request_any L verb endpoint body w = (Inl e, w)"
    if "truthy (authToken w)" "ToString (Number_toString L) (authToken w) = Inl e"
    using that by (simp add: request_any_def authorization_def throwIO_def)
  have built: "\<exists>auth. authorization L (authToken w) = Inr auth"
    if "\<not> truthy (authToken w) \<or> ToString (Number_toString L) (authToken w) = Inr s"
    using that by (auto simp add: authorization_def)
  have circular: "request_any L verb endpoint Circular w =
      (Inl (TypeError ''Converting circular structure to JSON''), w)"
    if "\<not> truthy (authToken w) \<or> ToString (Number_toString L) (authToken w) = Inr s"
    using built [OF that] by (auto simp add: request_any_def serialised_def throwIO_def)
  have entered: "\<exists>options. request_any L verb endpoint (Plain payload) w = send L options w"
    if "\<not> truthy (authToken w) \<or> ToString (Number_toString L) (authToken w) = Inr s"
    using built [OF that] by (auto simp add: request_any_def serialised_def)
  have returned: "\<exists>v. fst (request_any L verb endpoint (Plain payload) w) = Inr v"
    if "\<not> truthy (authToken w) \<or> ToString (Number_toString L) (authToken w) = Inr s"
    using entered [OF that] send_returns by auto
  have unparsed: "parse_or_null L raw = JNull
      \<and> fst (request_any L verb endpoint (Plain payload) w) =
          Inr (if res_ok st then JObj [(''success'', JBool True)]
               else JObj [(''success'', JBool False),
                          (''error'', JStr (''Request failed with status '' @ string_of_nat st)),
                          (''status'', JNum (int st)),
                          (''data'', JNull)])"
    if "\<not> truthy (authToken w) \<or> ToString (Number_toString L) (authToken w) = Inr s"
      and "network w = Responds st (Inr raw) # rest \<and> raw \<noteq> [] \<and> JSON_parse L raw = None"
    using entered [OF that(1)] that(2)
    by (auto simp add: send_responds classify_def or_js_def parse_or_null_def)
  have rejected: "fst (request_any L verb endpoint (Plain payload) w) =
      Inr (JObj [(''success'', JBool False), (''error'', JStr msg), (''networkError'', JBool True)])"
    if "\<not> truthy (authToken w) \<or> ToString (Number_toString L) (authToken w) = Inr s"
      and "network w = Rejects msg # rest"
    using entered [OF that(1)] that(2) by (auto simp add: send_rejects)
  from thrown circular returned unparsed rejected show ?thesis
    by blast
qed

text \<open>
  An HTML error page with status 502 and a network that is down, both answered with a
  value; a body that contains itself and a token object with a \<open>toString\<close> entry, both thrown
  back at the caller.
\<close>

theorem request_any_raises_witness:
  "fst (request_any sample_lib ''GET'' ''/today-visits'' (Plain JNull)
          (sample_world (JStr ''t1'') [Responds 502 (Inr ''<html>Bad Gateway</html>'')])) =
     Inr (JObj [(''success'', JBool False),
                (''error'', JStr ''Request failed with status 502''),
                (''status'', JNum 502),
                (''data'', JNull)])
   \<and> fst (request_any sample_lib ''GET'' ''/today-visits'' (Plain JNull)
          (sample_world JNull [Rejects ''Network request failed''])) =
     Inr (JObj [(''success'', JBool False), (''error'', JStr ''Network request failed''),
                (''networkError'', JBool True)])
   \<and> fst (request_any sample_lib ''PUT'' ''/maps/4/stations'' Circular
          (sample_world JNull [Rejects ''Network request failed''])) =
     Inl (TypeError ''Converting circular structure to JSON'')
   \<and> fst (request_any sample_lib ''GET'' ''/today-visits'' (Plain JNull)
          (sample_world (JObj [(''toString'', JStr ''t1'')]) [Responds 200 (Inr [])])) =
     Inl (TypeError ''Cannot convert object to primitive value'')"
proof -
  have unparsed: "JSON_parse sample_lib ''<html>Bad Gateway</html>'' = None"
    by (simp add: sample_lib_def sample_parse_def)
  have n502: "string_of_nat 502 = ''502''"
    by code_simp
  have bad: "\<not> res_ok 502"
    by (simp add: res_ok_def)
  have held: "ToString (Number_toString sample_lib) (authToken (sample_world (JStr ''t1'')
      [Responds 502 (Inr ''<html>Bad Gateway</html>'')])) = Inr ''t1''"
    by (simp add: sample_world_def)
  have net1: "network (sample_world (JStr ''t1'') [Responds 502 (Inr ''<html>Bad Gateway</html>'')]) =
      Responds 502 (Inr ''<html>Bad Gateway</html>'') # []"
    by (simp add: sample_world_def)
  have none: "\<not> truthy (authToken (sample_world JNull [Rejects ''Network request failed'']))"
    by (simp add: sample_world_def)
  have net2: "network (sample_world JNull [Rejects ''Network request failed'']) =
      Rejects ''Network request failed'' # []"
    by (simp add: sample_world_def)
  have odd: "truthy (authToken (sample_world (JObj [(''toString'', JStr ''t1'')]) [Responds 200 (Inr [])]))
      \<and> ToString (Number_toString sample_lib)
           (authToken (sample_world (JObj [(''toString'', JStr ''t1'')]) [Responds 200 (Inr [])])) =
          Inl (TypeError ''Cannot convert object to primitive value'')"
    by (simp add: sample_world_def)
  from request_any_raises [of "sample_world (JStr ''t1'') [Responds 502 (Inr ''<html>Bad Gateway</html>'')]"
      sample_lib "TypeError []" "''GET''" "''/today-visits''" "Plain JNull" "''t1''" JNull 502
      "''<html>Bad Gateway</html>''" "[]" "[]"]
    request_any_raises [of "sample_world JNull [Rejects ''Network request failed'']"
      sample_lib "TypeError []" "''GET''" "''/today-visits''" "Plain JNull" "[]" JNull 0 "[]" "[]"
      "''Network request failed''"]
    request_any_raises [of "sample_world JNull [Rejects ''Network request failed'']"
      sample_lib "TypeError []" "''PUT''" "''/maps/4/stations''" "Plain JNull" "[]" JNull 0 "[]" "[]"
      "''Network request failed''"]
    request_any_raises [of "sample_world (JObj [(''toString'', JStr ''t1'')]) [Responds 200 (Inr [])]"
      sample_lib "TypeError ''Cannot convert object to primitive value''" "''GET''"
      "''/today-visits''" "Plain JNull" "[]" JNull 0 "[]" "[]" "[]"]
  show ?thesis
    using unparsed n502 bad held net1 none net2 odd by simp
qed

text \<open>
  Against the wording of C4: a token object parsed from \<open>{"toString":"t1"}\<close>, and a body that
  contains itself. In both calls \<open>request\<close> raises a TypeError.
\<close>

theorem request_any_raises_counterexample:
  "fst (request_any sample_lib ''GET'' ''/today-visits'' (Plain JNull)
          (sample_world (JObj [(''toString'', JStr ''t1'')]) [Responds 200 (Inr [])])) =
     Inl (TypeError ''Cannot convert object to primitive value'')
   \<and> fst (request_any sample_lib ''PUT'' ''/maps/4/stations'' Circular
          (sample_world (JStr ''t1'') [Responds 200 (Inr [])])) =
     Inl (TypeError ''Converting circular structure to JSON'')"
  by (simp add: request_any_def authorization_def serialised_def throwIO_def sample_world_def)

section \<open>The value returned on a 2xx response\<close>

text \<open>
  C9, as the code has it. For a response with a 2xx status whose body text was read,
  \<open>request\<close> returns the parsed body verbatim when it is truthy (an object, an array, a
  non-empty string, a non-zero number, \<open>true\<close>), and the minimal envelope \<open>{success: true}\<close>
  otherwise (body empty or unparseable, or parsing to \<open>null\<close>, \<open>false\<close>, \<open>0\<close> or \<open>""\<close>).
\<close>

theorem request_success_value:
  assumes "network w = Responds st (Inr raw) # rest" and "res_ok st"
  shows "fst (request L verb endpoint body w) =
     Inr (if truthy (parse_or_null L raw) then parse_or_null L raw
          else JObj [(''success'', JBool True)])"
  using assms by (simp add: request_responds classify_def or_js_def)

text \<open>A bare array comes back verbatim; an empty 204 body gives the minimal envelope.\<close>

theorem request_success_value_witness:
  \<open>fst (request sample_lib ''GET'' ''/customers'' JNull
          (sample_world JNull [Responds 200 (Inr ''[{"id":"5","name":"Acme"}]'')])) =
     Inr (JArr [JObj [(''id'', JStr ''5''), (''name'', JStr ''Acme'')]])
   \<and> fst (request sample_lib ''DELETE'' ''/notifications/clear'' JNull
          (sample_world JNull [Responds 204 (Inr [])])) =
     Inr (JObj [(''success'', JBool True)])\<close>
proof -
  have net1: \<open>network (sample_world JNull [Responds 200 (Inr ''[{"id":"5","name":"Acme"}]'')]) =
      Responds 200 (Inr ''[{"id":"5","name":"Acme"}]'') # []\<close>
    by (simp add: sample_world_def)
  have net2: "network (sample_world JNull [Responds 204 (Inr [])]) = Responds 204 (Inr []) # []"
    by (simp add: sample_world_def)
  have ok1: "res_ok 200" and ok2: "res_ok 204"
    by (simp_all add: res_ok_def)
  from request_success_value [OF net1 ok1, of sample_lib "''GET''" "''/customers''" JNull]
    request_success_value [OF net2 ok2, of sample_lib "''DELETE''" "''/notifications/clear''" JNull]
  show ?thesis
    by (simp add: parse_or_null_def sample_lib_def sample_parse_def)
qed

text \<open>
  Against the wording of C9: the body \<open>42\<close> parses to a value that is not an object, and
  \<open>request\<close> returns it, not \<open>{success: true}\<close>.
\<close>

theorem request_success_value_counterexample:
  "fst (request sample_lib ''GET'' ''/today-visits'' JNull
          (sample_world JNull [Responds 200 (Inr ''42'')])) \<noteq>
     Inr (spec_success_value (parse_or_null sample_lib ''42''))"
  by (simp add: request_responds sample_world_def classify_def res_ok_def or_js_def
      parse_or_null_def sample_lib_def sample_parse_def spec_success_value_def)

section \<open>The Authorization header\<close>

lemma verifyTokenWithBackend_sent:
  "sent (snd (verifyTokenWithBackend L token w)) =
     sent w @ [\<lparr>rq_url = API_BASE_URL @ ''/verify-token'', rq_method = ''POST'',
                rq_headers = [(''Content-Type'', ''application/json'')],
                rq_body = Some (JObj [(''token'', token)])\<rparr>]"
  by (simp add: verifyTokenWithBackend_def tryCatch_def bindIO_def fetch_def response_json_def
      returnIO_def throwIO_def Let_def
      split: list.split fetch_outcome.split sum.split option.split)

text \<open>
  C7, as the code has it. Every call of \<open>request\<close> sends exactly one request, with
  \<open>Content-Type: application/json\<close>, and with \<open>Authorization: Bearer <token>\<close> when a token
  is held and no Authorization header when none is held. Token verification does not go
  through \<open>request\<close>: \<open>verifyTokenWithBackend\<close> sends one request with no Authorization header,
  the token to verify travelling in the body.
\<close>

theorem authorization_header:
  "(\<exists>rq. sent (snd (request L verb endpoint body w)) = sent w @ [rq]
         \<and> map_of (rq_headers rq) ''Content-Type'' = Some ''application/json''
         \<and> map_of (rq_headers rq) ''Authorization'' =
             (if truthy (authToken w) then Some (''Bearer '' @ String_js (authToken w)) else None))
   \<and> (\<exists>rq. sent (snd (verifyTokenWithBackend L token w)) = sent w @ [rq]
         \<and> map_of (rq_headers rq) ''Authorization'' = None
         \<and> rq_body rq = Some (JObj [(''token'', token)]))"
  by (simp add: request_sent verifyTokenWithBackend_sent request_options_def)

text \<open>With the token \<open>t1\<close> held, and with no token held.\<close>

theorem authorization_header_witness:
  "(\<exists>rq. sent (snd (request sample_lib ''GET'' ''/customers'' JNull
                       (sample_world (JStr ''t1'') []))) = [rq]
         \<and> map_of (rq_headers rq) ''Authorization'' = Some ''Bearer t1'')
   \<and> (\<exists>rq. sent (snd (request sample_lib ''GET'' ''/customers'' JNull
                       (sample_world JNull []))) = [rq]
         \<and> map_of (rq_headers rq) ''Authorization'' = None)"
  using authorization_header [of sample_lib "''GET''" "''/customers''" JNull
      "sample_world (JStr ''t1'') []" JNull]
    authorization_header [of sample_lib "''GET''" "''/customers''" JNull
      "sample_world JNull []" JNull]
  by (auto simp add: sample_world_def)

text \<open>
  Against the wording of C7: while the token \<open>t1\<close> is held, the request sent by token
  verification carries no \<open>Authorization: Bearer t1\<close> header.
\<close>

theorem authorization_header_counterexample:
  \<open>truthy (getCurrentToken (sample_world (JStr ''t1'') [Responds 200 (Inr ''{"success":true}'')]))
   \<and> map_of (rq_headers (last (sent (snd (verifyTokenWithBackend sample_lib (JStr ''t1'')
            (sample_world (JStr ''t1'') [Responds 200 (Inr ''{"success":true}'')]))))))
        ''Authorization'' \<noteq> Some ''Bearer t1''\<close>
  by (simp add: verifyTokenWithBackend_sent sample_world_def getCurrentToken_def)

section \<open>The token round trip\<close>

lemma setAuthToken_run:
  "fst (setAuthToken tok w) = Inr ()"
  "authToken (snd (setAuthToken tok w)) = authToken (startup_load (w\<lparr>authToken := tok\<rparr>))"
  "take 1 (storage_faults w) \<noteq> [True] \<Longrightarrow>
     storage (snd (setAuthToken tok w)) =
       (if truthy tok then (storage w)(''authToken'' \<mapsto> tok) else (storage w)(''authToken'' := None))"
  "take 1 (storage_faults w) = [True] \<Longrightarrow> storage (snd (setAuthToken tok w)) = storage w"
  "storage_faults (snd (setAuthToken tok w)) = tl (storage_faults w)"
  "network (snd (setAuthToken tok w)) = network w"
  "sent (snd (setAuthToken tok w)) = sent w"
  "loading (snd (setAuthToken tok w)) = False"
  by (auto simp add: setAuthToken_def tryCatch_def AsyncStorage_setItem_def
      AsyncStorage_removeItem_def storage_call_def returnIO_def Let_def
      split: list.splits bool.splits)

lemma clearAuthToken_run:
  "fst (clearAuthToken w) = Inr ()"
  "authToken (snd (clearAuthToken w)) = authToken (startup_load (w\<lparr>authToken := JNull\<rparr>))"
  "take 1 (storage_faults w) \<noteq> [True] \<Longrightarrow>
     storage (snd (clearAuthToken w)) = (storage w)(''authToken'' := None)"
  "take 1 (storage_faults w) = [True] \<Longrightarrow> storage (snd (clearAuthToken w)) = storage w"
  "storage_faults (snd (clearAuthToken w)) = tl (storage_faults w)"
  "network (snd (clearAuthToken w)) = network w"
  "sent (snd (clearAuthToken w)) = sent w"
  "loading (snd (clearAuthToken w)) = False"
  by (auto simp add: clearAuthToken_def tryCatch_def
      AsyncStorage_removeItem_def storage_call_def returnIO_def Let_def
      split: list.splits bool.splits)

lemma token_after_load:
  "\<not> loading w \<Longrightarrow> authToken (snd (setAuthToken tok w)) = tok"
  "\<not> loading w \<Longrightarrow> authToken (snd (clearAuthToken w)) = JNull"
  by (simp_all add: setAuthToken_run clearAuthToken_run)

text \<open>
  C8, as the code has it. \<open>setAuthToken\<close> and \<open>clearAuthToken\<close> never raise. Unless the
  start-up read of a truthy stored token is still under way, \<open>setAuthToken(t)\<close> followed by
  \<open>getCurrentToken()\<close> yields \<open>t\<close> itself, also when \<open>t\<close> is empty or absent, and
  \<open>clearAuthToken()\<close> followed by \<open>getCurrentToken()\<close> yields \<open>null\<close>; right after a
  \<open>setAuthToken\<close>, \<open>clearAuthToken()\<close> always leaves \<open>null\<close>. Provided the AsyncStorage call
  does not fail, durable storage holds \<open>t\<close> after \<open>setAuthToken(t)\<close> with a truthy \<open>t\<close>, and no
  token after \<open>setAuthToken\<close> with an empty or absent token and after \<open>clearAuthToken()\<close>.
  While the start-up read of a truthy stored token is under way, that token overwrites the
  one just set or cleared.
\<close>

theorem token_round_trip:
  "fst (setAuthToken tok w) = Inr () \<and> fst (clearAuthToken w) = Inr ()
   \<and> ((loading w \<longrightarrow> (\<forall>old. storage w ''authToken'' = Some old \<longrightarrow> \<not> truthy old))
      \<longrightarrow> getCurrentToken (snd (setAuthToken tok w)) = tok
        \<and> getCurrentToken (snd (clearAuthToken w)) = JNull)
   \<and> getCurrentToken (snd (clearAuthToken (snd (setAuthToken tok w)))) = JNull
   \<and> (take 1 (storage_faults w) \<noteq> [True]
      \<longrightarrow> storage (snd (setAuthToken tok w)) ''authToken'' = (if truthy tok then Some tok else None)
        \<and> storage (snd (clearAuthToken w)) ''authToken'' = None)
   \<and> (loading w \<and> storage w ''authToken'' = Some old \<and> truthy old
      \<longrightarrow> getCurrentToken (snd (setAuthToken tok w)) = old
        \<and> getCurrentToken (snd (clearAuthToken w)) = old)"
proof -
  have quiet: "getCurrentToken (snd (setAuthToken tok w)) = tok
      \<and> getCurrentToken (snd (clearAuthToken w)) = JNull"
    if "loading w \<longrightarrow> (\<forall>old. storage w ''authToken'' = Some old \<longrightarrow> \<not> truthy old)"
    using that
    by (auto simp add: getCurrentToken_def setAuthToken_run clearAuthToken_run startup_load_def
        split: option.split)
  have after: "getCurrentToken (snd (clearAuthToken (snd (setAuthToken tok w)))) = JNull"
    by (simp add: getCurrentToken_def token_after_load setAuthToken_run)
  have stored: "storage (snd (setAuthToken tok w)) ''authToken'' = (if truthy tok then Some tok else None)
      \<and> storage (snd (clearAuthToken w)) ''authToken'' = None"
    if "take 1 (storage_faults w) \<noteq> [True]"
    using that by (simp add: setAuthToken_run clearAuthToken_run)
  have overwritten: "getCurrentToken (snd (setAuthToken tok w)) = old
      \<and> getCurrentToken (snd (clearAuthToken w)) = old"
    if "loading w \<and> storage w ''authToken'' = Some old \<and> truthy old"
    using that
    by (simp add: getCurrentToken_def setAuthToken_run clearAuthToken_run startup_load_def)
  from quiet after stored overwritten show ?thesis
    by (simp add: setAuthToken_run clearAuthToken_run)
qed

text \<open>
  A token \<open>old\<close> is held and stored and AsyncStorage works; then the module has just been
  loaded, with \<open>old\<close> in durable storage.
\<close>

theorem token_round_trip_witness:
  "getCurrentToken (snd (setAuthToken (JStr ''t1'') (stored_world (JStr ''old'') [] []))) = JStr ''t1''
   \<and> storage (snd (setAuthToken (JStr ''t1'') (stored_world (JStr ''old'') [] []))) ''authToken''
       = Some (JStr ''t1'')
   \<and> getCurrentToken (snd (clearAuthToken (snd (setAuthToken (JStr ''t1'')
        (stored_world (JStr ''old'') [] []))))) = JNull
   \<and> getCurrentToken (snd (setAuthToken (JStr []) (stored_world (JStr ''old'') [] []))) = JStr []
   \<and> storage (snd (setAuthToken (JStr []) (stored_world (JStr ''old'') [] []))) ''authToken'' = None
   \<and> getCurrentToken (snd (setAuthToken (JStr ''t1'') (starting_world (JStr ''old'') []))) = JStr ''old''
   \<and> getCurrentToken (snd (clearAuthToken (starting_world (JStr ''old'') []))) = JStr ''old''"
  using token_round_trip [of "JStr ''t1''" "stored_world (JStr ''old'') [] []" "JStr ''old''"]
    token_round_trip [of "JStr []" "stored_world (JStr ''old'') [] []" "JStr ''old''"]
    token_round_trip [of "JStr ''t1''" "starting_world (JStr ''old'') []" "JStr ''old''"]
  by (simp add: stored_world_def starting_world_def)

text \<open>
  Against the wording of C8: when the AsyncStorage call fails, \<open>setAuthToken('')\<close> leaves the
  old token in durable storage; and while the start-up read is under way, the stored token
  \<open>old\<close> comes back after \<open>setAuthToken('t1')\<close> and after \<open>clearAuthToken()\<close>.
\<close>

theorem token_round_trip_counterexample:
  "storage (snd (setAuthToken (JStr []) (stored_world (JStr ''old'') [True] []))) ''authToken''
     \<noteq> None
   \<and> getCurrentToken (snd (setAuthToken (JStr ''t1'') (starting_world (JStr ''old'') [])))
     \<noteq> JStr ''t1''
   \<and> getCurrentToken (snd (clearAuthToken (starting_world (JStr ''old'') []))) \<noteq> JNull"
  by (simp add: setAuthToken_run clearAuthToken_run stored_world_def starting_world_def
      getCurrentToken_def startup_load_def)

section \<open>Login with a token that fails verification\<close>

lemma truthy_field_object: "truthy (field r k) \<Longrightarrow> truthy r"
  by (cases r) simp_all

lemma isArray_iff: "isArray v \<longleftrightarrow> (\<exists>xs. v = JArr xs)"
  by (cases v) simp_all

lemma verifyTokenWithBackend_state:
  "authToken (snd (verifyTokenWithBackend L token w)) = authToken (startup_load w)"
  "storage (snd (verifyTokenWithBackend L token w)) = storage w"
  "storage_faults (snd (verifyTokenWithBackend L token w)) = storage_faults w"
  "loading (snd (verifyTokenWithBackend L token w)) = False"
  by (simp_all add: verifyTokenWithBackend_def tryCatch_def bindIO_def fetch_def response_json_def
      returnIO_def throwIO_def Let_def
      split: list.split fetch_outcome.split sum.split option.split)

lemma verifyTokenWithBackend_returns: "\<exists>v. fst (verifyTokenWithBackend L token w) = Inr v"
  by (simp add: verifyTokenWithBackend_def tryCatch_def bindIO_def fetch_def response_json_def
      returnIO_def throwIO_def Let_def
      split: list.split fetch_outcome.split sum.split option.split)

text \<open>
  C6, as the code has it. When the login response is successful and carries a token, and
  the verification that follows reports failure, \<open>login\<close> returns the failure envelope with
  the error "Token validation failed. Please try again.", and afterwards
  \<open>getCurrentToken()\<close> yields \<open>null\<close>. The token just stored is also removed from durable
  storage, provided the AsyncStorage removal does not fail.
\<close>

theorem login_verification_failure:
  assumes submitted:
      "fst (request L ''POST'' ''/login'' (JObj [(''email'', email), (''password'', password)]) w)
         = Inr result"
    and accepted: "truthy (field result ''success'')"
    and carries: "truthy (field result ''token'')"
    and verified:
      "fst (verifyTokenWithBackend L (field result ''token'')
             (snd (setAuthToken (field result ''token'')
                (snd (request L ''POST'' ''/login''
                        (JObj [(''email'', email), (''password'', password)]) w)))))
         = Inr verification"
    and reported: "\<not> nullish verification"
    and failed: "\<not> truthy (field verification ''success'')"
  shows "fst (login L email password w) =
           Inr (JObj [(''success'', JBool False),
                      (''error'', JStr ''Token validation failed. Please try again.'')])
         \<and> getCurrentToken (snd (login L email password w)) = JNull
         \<and> (take 1 (drop 1 (storage_faults w)) \<noteq> [True] \<longrightarrow>
              storage (snd (login L email password w)) ''authToken'' = None)"
proof -
  let ?tok = "field result ''token''"
  define w1 where
    "w1 = snd (request L ''POST'' ''/login'' (JObj [(''email'', email), (''password'', password)]) w)"
  define w2 where "w2 = snd (setAuthToken ?tok w1)"
  define w3 where "w3 = snd (verifyTokenWithBackend L ?tok w2)"
  define w4 where "w4 = snd (clearAuthToken w3)"
  have step1: "request L ''POST'' ''/login'' (JObj [(''email'', email), (''password'', password)]) w
      = (Inr result, w1)"
    using submitted by (simp add: w1_def prod_eq_iff)
  have step2: "setAuthToken ?tok w1 = (Inr (), w2)"
    by (simp add: w2_def prod_eq_iff setAuthToken_run)
  have held: "getCurrentToken w2 = ?tok"
    by (simp add: w2_def w1_def getCurrentToken_def setAuthToken_run request_state)
  have step3: "verifyTokenWithBackend L ?tok w2 = (Inr verification, w3)"
    using verified by (simp add: w3_def w2_def w1_def prod_eq_iff)
  have step4: "clearAuthToken w3 = (Inr (), w4)"
    by (simp add: w4_def prod_eq_iff clearAuthToken_run)
  have run: "login L email password w =
      (Inr (JObj [(''success'', JBool False),
                  (''error'', JStr ''Token validation failed. Please try again.'')]), w4)"
    unfolding login_def
    using accepted carries reported failed truthy_field_object [OF accepted]
    by (simp add: bindIO_def step1 step2 held step3 step4 liftE_def member_def returnIO_def)
  have faults: "storage_faults w3 = drop 1 (storage_faults w)"
    by (simp add: w3_def w2_def w1_def verifyTokenWithBackend_state setAuthToken_run
        request_state drop_Suc)
  have loaded: "\<not> loading w3"
    by (simp add: w3_def verifyTokenWithBackend_state)
  show ?thesis
    by (simp add: run w4_def getCurrentToken_def clearAuthToken_run faults loaded)
qed

text \<open>The backend issues the token \<open>t1\<close> and then rejects it; AsyncStorage works.\<close>

theorem login_verification_failure_witness:
  \<open>fst (login sample_lib (JStr ''admin@example.com'') (JStr ''secret'')
          (stored_world JNull []
             [Responds 200 (Inr ''{"success":true,"token":"t1","role":"admin"}''),
              Responds 200 (Inr ''{"success":false}'')])) =
     Inr (JObj [(''success'', JBool False),
                (''error'', JStr ''Token validation failed. Please try again.'')])
   \<and> getCurrentToken (snd (login sample_lib (JStr ''admin@example.com'') (JStr ''secret'')
          (stored_world JNull []
             [Responds 200 (Inr ''{"success":true,"token":"t1","role":"admin"}''),
              Responds 200 (Inr ''{"success":false}'')]))) = JNull
   \<and> storage (snd (login sample_lib (JStr ''admin@example.com'') (JStr ''secret'')
          (stored_world JNull []
             [Responds 200 (Inr ''{"success":true,"token":"t1","role":"admin"}''),
              Responds 200 (Inr ''{"success":false}'')]))) ''authToken'' = None\<close>
proof -
  let ?w = \<open>stored_world JNull []
             [Responds 200 (Inr ''{"success":true,"token":"t1","role":"admin"}''),
              Responds 200 (Inr ''{"success":false}'')]\<close>
  let ?result = "JObj [(''success'', JBool True), (''token'', JStr ''t1''), (''role'', JStr ''admin'')]"
  let ?verification = "JObj [(''success'', JBool False)]"
  have submitted:
    "fst (request sample_lib ''POST'' ''/login''
            (JObj [(''email'', JStr ''admin@example.com''), (''password'', JStr ''secret'')]) ?w)
       = Inr ?result"
    by (simp add: request_responds stored_world_def classify_def res_ok_def or_js_def
        parse_or_null_def sample_lib_def sample_parse_def)
  have verified:
    "fst (verifyTokenWithBackend sample_lib (field ?result ''token'')
           (snd (setAuthToken (field ?result ''token'')
              (snd (request sample_lib ''POST'' ''/login''
                      (JObj [(''email'', JStr ''admin@example.com''), (''password'', JStr ''secret'')])
                      ?w)))))
       = Inr ?verification"
    by (simp add: request_responds stored_world_def setAuthToken_def AsyncStorage_setItem_def
        storage_call_def verifyTokenWithBackend_def tryCatch_def bindIO_def fetch_def
        response_json_def returnIO_def sample_lib_def sample_parse_def)
  from login_verification_failure [OF submitted _ _ verified]
  show ?thesis
    by (simp add: stored_world_def)
qed

text \<open>
  Against the wording of C6: the same login, with an AsyncStorage that stores the token and
  then fails to remove it. The token stays in durable storage.
\<close>

theorem login_verification_failure_counterexample:
  \<open>storage (snd (login sample_lib (JStr ''admin@example.com'') (JStr ''secret'')
          (stored_world JNull [False, True]
             [Responds 200 (Inr ''{"success":true,"token":"t1","role":"admin"}''),
              Responds 200 (Inr ''{"success":false}'')]))) ''authToken'' \<noteq> None\<close>
  by (simp add: login_def request_responds stored_world_def classify_def res_ok_def or_js_def
      parse_or_null_def setAuthToken_def clearAuthToken_def AsyncStorage_setItem_def
      AsyncStorage_removeItem_def getCurrentToken_def liftE_def member_def
      storage_call_def verifyTokenWithBackend_def tryCatch_def bindIO_def fetch_def
      response_json_def returnIO_def sample_lib_def sample_parse_def Let_def)

section \<open>The fallback chain of station logging\<close>

lemma try_endpoint_run:
  "try_endpoint L endpoint payload w =
     (Inr (case fst (request L ''POST'' endpoint payload w) of
             Inr result \<Rightarrow> if truthy (field result ''success'') then Some result else None
           | Inl e \<Rightarrow> None),
      snd (request L ''POST'' endpoint payload w))"
proof -
  obtain result w' where "request L ''POST'' endpoint payload w = (Inr result, w')"
    using request_pair by blast
  then show ?thesis
    by (simp add: try_endpoint_def tryCatch_def bindIO_def returnIO_def)
qed

text \<open>
  C5, as the code has it. \<open>logBaitStation\<close> tries \<open>/station-logs\<close>, then \<open>/log-station\<close>, then
  \<open>/log\<close>, and an attempt counts as a success when the \<open>success\<close> of its result is truthy.
  Whatever the network does: the first of the first two attempts to succeed gives the
  returned value and the final state, so that a success of the second endpoint leaves
  \<open>/log\<close> uncalled; when neither succeeds, \<open>/log\<close> is called with the payload extended by
  \<open>action: 'station-log'\<close> and \<open>serviceType: 'myocide'\<close>, and its result is returned. Each
  attempt sends exactly one request, with the token held when it starts.
\<close>

theorem station_log_fallback:
  assumes "\<not> nullish data"
    and "first = request L ''POST'' ''/station-logs'' (JObj (stationData data)) w"
    and "second = request L ''POST'' ''/log-station'' (JObj (stationData data)) (snd first)"
    and "third =
           request L ''POST'' ''/log''
             (JObj (stationData data @
                [(''action'', JStr ''station-log''), (''serviceType'', JStr ''myocide'')]))
             (snd second)"
  shows "logBaitStation L data w =
           (if reports_success first then first
            else if reports_success second then second
            else third)
         \<and> sent (snd first) =
             sent w @ [request_options (authToken w) ''POST'' ''/station-logs'' (JObj (stationData data))]
         \<and> sent (snd second) =
             sent (snd first) @
               [request_options (authToken (snd first)) ''POST'' ''/log-station''
                  (JObj (stationData data))]
         \<and> sent (snd third) =
             sent (snd second) @
               [request_options (authToken (snd second)) ''POST'' ''/log''
                  (JObj (stationData data @
                     [(''action'', JStr ''station-log''), (''serviceType'', JStr ''myocide'')]))]"
proof -
  obtain r1 w1 where first: "first = (Inr r1, w1)"
    unfolding assms(2) using request_pair by blast
  obtain r2 w2 where second: "second = (Inr r2, w2)"
    unfolding assms(3) using request_pair by blast
  obtain r3 w3 where third: "third = (Inr r3, w3)"
    unfolding assms(4) using request_pair by blast
  have call1: "request L ''POST'' ''/station-logs'' (JObj (stationData data)) w = (Inr r1, w1)"
    using first assms(2) by simp
  have call2: "request L ''POST'' ''/log-station'' (JObj (stationData data)) w1 = (Inr r2, w2)"
    using first second assms(3) by simp
  have call3: "request L ''POST'' ''/log'' (fallbackData data) w2 = (Inr r3, w3)"
    using second third assms(4) by (simp add: fallbackData_def)
  have attempt1: "try_endpoint L ''/station-logs'' (JObj (stationData data)) w =
      (Inr (if truthy (field r1 ''success'') then Some r1 else None), w1)"
    by (simp add: try_endpoint_run call1)
  have attempt2: "try_endpoint L ''/log-station'' (JObj (stationData data)) w1 =
      (Inr (if truthy (field r2 ''success'') then Some r2 else None), w2)"
    by (simp add: try_endpoint_run call2)
  have attempt3:
    "tryCatch (request L ''POST'' ''/log'' (fallbackData data))
       (\<lambda>error. returnIO (JObj [(''success'', JBool False),
          (''error'', JStr ''No endpoint available to save station data'')])) w2 = (Inr r3, w3)"
    by (simp add: tryCatch_def call3)
  have run: "logBaitStation L data w =
      (if reports_success first then first
       else if reports_success second then second else third)"
    using assms(1)
    by (simp add: logBaitStation_def bindIO_def attempt1 attempt2 attempt3 returnIO_def
        reports_success_def first second third)
  have logs: "sent (snd first) =
             sent w @ [request_options (authToken w) ''POST'' ''/station-logs'' (JObj (stationData data))]"
    "sent (snd second) =
             sent (snd first) @
               [request_options (authToken (snd first)) ''POST'' ''/log-station''
                  (JObj (stationData data))]"
    "sent (snd third) =
             sent (snd second) @
               [request_options (authToken (snd second)) ''POST'' ''/log''
                  (JObj (stationData data @
                     [(''action'', JStr ''station-log''), (''serviceType'', JStr ''myocide'')]))]"
    by (simp_all add: assms(2-4) request_sent request_state)
  show ?thesis
    using run logs by simp
qed

text \<open>
  Two runs: both first endpoints fail and \<open>/log\<close> succeeds; the second endpoint succeeds
  and \<open>/log\<close> is not called.
\<close>

theorem station_log_fallback_witness:
  \<open>fst (logBaitStation sample_lib (JObj [(''stationId'', JNum 3), (''customerId'', JStr ''c7'')])
          (sample_world (JStr ''t1'')
             [Responds 404 (Inr []), Responds 500 (Inr ''{"error":""}''),
              Responds 200 (Inr ''{"success":true}'')])) =
     Inr (JObj [(''success'', JBool True)])
   \<and> map rq_url (sent (snd (logBaitStation sample_lib
          (JObj [(''stationId'', JNum 3), (''customerId'', JStr ''c7'')])
          (sample_world (JStr ''t1'')
             [Responds 404 (Inr []), Responds 500 (Inr ''{"error":""}''),
              Responds 200 (Inr ''{"success":true}'')])))) =
     [API_BASE_URL @ ''/station-logs'', API_BASE_URL @ ''/log-station'', API_BASE_URL @ ''/log'']
   \<and> map rq_url (sent (snd (logBaitStation sample_lib
          (JObj [(''stationId'', JNum 3), (''customerId'', JStr ''c7'')])
          (sample_world (JStr ''t1'')
             [Responds 404 (Inr []), Responds 200 (Inr ''{"success":true}''),
              Responds 200 (Inr ''{"success":true}'')])))) =
     [API_BASE_URL @ ''/station-logs'', API_BASE_URL @ ''/log-station'']\<close>
proof -
  let ?data = "JObj [(''stationId'', JNum 3), (''customerId'', JStr ''c7'')]"
  let ?A = \<open>sample_world (JStr ''t1'')
             [Responds 404 (Inr []), Responds 500 (Inr ''{"error":""}''),
              Responds 200 (Inr ''{"success":true}'')]\<close>
  let ?B = \<open>sample_world (JStr ''t1'')
             [Responds 404 (Inr []), Responds 200 (Inr ''{"success":true}''),
              Responds 200 (Inr ''{"success":true}'')]\<close>
  have given: "\<not> nullish ?data"
    by simp
  note evaluate = request_responds sample_world_def classify_def res_ok_def or_js_def
    parse_or_null_def sample_lib_def sample_parse_def reports_success_def request_options_def
  from station_log_fallback [OF given refl refl refl, of sample_lib ?A]
    station_log_fallback [OF given refl refl refl, of sample_lib ?B]
  show ?thesis
    by (simp add: evaluate)
qed

text \<open>
  Against the wording of C5: the first endpoint answers \<open>{"success":"false"}\<close>, which is not
  \<open>success: true\<close>, and the second would answer \<open>{"success":true}\<close>. The code takes the first
  answer for a success, returns it, and calls neither \<open>/log-station\<close> nor \<open>/log\<close>.
\<close>

theorem station_log_fallback_counterexample:
  \<open>field (parse_or_null sample_lib ''{"success":"false"}'') ''success'' \<noteq> JBool True
   \<and> fst (logBaitStation sample_lib (JObj [(''stationId'', JNum 3), (''customerId'', JStr ''c7'')])
          (sample_world (JStr ''t1'')
             [Responds 200 (Inr ''{"success":"false"}''), Responds 200 (Inr ''{"success":true}'')])) =
     Inr (JObj [(''success'', JStr ''false'')])
   \<and> map rq_url (sent (snd (logBaitStation sample_lib
          (JObj [(''stationId'', JNum 3), (''customerId'', JStr ''c7'')])
          (sample_world (JStr ''t1'')
             [Responds 200 (Inr ''{"success":"false"}''), Responds 200 (Inr ''{"success":true}'')])))) =
     [API_BASE_URL @ ''/station-logs'']\<close>
  by (simp add: logBaitStation_def try_endpoint_def tryCatch_def bindIO_def returnIO_def
      request_responds sample_world_def classify_def res_ok_def or_js_def parse_or_null_def
      sample_lib_def sample_parse_def request_options_def)

section \<open>The names of bait types and chemicals\<close>

lemma getBaitTypes_array: "\<exists>xs w'. getBaitTypes L w = (Inr (JArr xs), w')"
proof -
  obtain res w' where "request L ''GET'' ''/materials/bait-types'' JNull w = (Inr res, w')"
    using request_pair by blast
  then show ?thesis
    by (auto simp add: getBaitTypes_def tryCatch_def bindIO_def returnIO_def isArray_iff)
qed

lemma getChemicals_array: "\<exists>xs w'. getChemicals L w = (Inr (JArr xs), w')"
proof -
  obtain res w' where "request L ''GET'' ''/materials/chemicals'' JNull w = (Inr res, w')"
    using request_pair by blast
  then show ?thesis
    by (auto simp add: getChemicals_def bindIO_def returnIO_def isArray_iff)
qed

text \<open>
  C10. \<open>getBaitTypes\<close> and \<open>getChemicals\<close> return a plain array for every backend response,
  never an envelope with a \<open>success\<close> field; so \<open>getBaitTypeNames\<close> and \<open>getChemicalNames\<close>,
  which look for \<open>success\<close> and a nested array, return the empty list for every backend
  response.
\<close>

theorem material_names_always_empty:
  "(\<exists>xs. fst (getBaitTypes L w) = Inr (JArr xs))
   \<and> (\<exists>xs. fst (getChemicals L w) = Inr (JArr xs))
   \<and> fst (getBaitTypeNames L w) = Inr (JArr [])
   \<and> fst (getChemicalNames L w) = Inr (JArr [])"
proof -
  obtain bs w1 where bait: "getBaitTypes L w = (Inr (JArr bs), w1)"
    using getBaitTypes_array by blast
  obtain cs w2 where chem: "getChemicals L w = (Inr (JArr cs), w2)"
    using getChemicals_array by blast
  have "fst (getBaitTypeNames L w) = Inr (JArr [])"
    by (simp add: getBaitTypeNames_def tryCatch_def bindIO_def returnIO_def bait)
  moreover have "fst (getChemicalNames L w) = Inr (JArr [])"
    by (simp add: getChemicalNames_def tryCatch_def bindIO_def returnIO_def chem)
  ultimately show ?thesis
    by (simp add: bait chem)
qed

text \<open>The backend lists one bait type, one chemical; the names come out empty.\<close>

theorem material_names_always_empty_witness:
  \<open>fst (getBaitTypes sample_lib
          (sample_world (JStr ''t1'')
             [Responds 200 (Inr ''{"success":true,"baitTypes":[{"name":"Wax block"}]}'')])) =
     Inr (JArr [JObj [(''name'', JStr ''Wax block'')]])
   \<and> fst (getBaitTypeNames sample_lib
          (sample_world (JStr ''t1'')
             [Responds 200 (Inr ''{"success":true,"baitTypes":[{"name":"Wax block"}]}'')])) =
     Inr (JArr [])
   \<and> fst (getChemicals sample_lib
          (sample_world (JStr ''t1'')
             [Responds 200 (Inr ''{"success":true,"chemicals":[{"name":"Permethrin"}]}'')])) =
     Inr (JArr [JObj [(''name'', JStr ''Permethrin'')]])
   \<and> fst (getChemicalNames sample_lib
          (sample_world (JStr ''t1'')
             [Responds 200 (Inr ''{"success":true,"chemicals":[{"name":"Permethrin"}]}'')])) =
     Inr (JArr [])\<close>
proof -
  have bait: \<open>fst (getBaitTypes sample_lib
          (sample_world (JStr ''t1'')
             [Responds 200 (Inr ''{"success":true,"baitTypes":[{"name":"Wax block"}]}'')])) =
     Inr (JArr [JObj [(''name'', JStr ''Wax block'')]])\<close>
    by (simp add: getBaitTypes_def tryCatch_def bindIO_def returnIO_def request_responds
        sample_world_def classify_def res_ok_def or_js_def parse_or_null_def sample_lib_def
        sample_parse_def)
  have chem: \<open>fst (getChemicals sample_lib
          (sample_world (JStr ''t1'')
             [Responds 200 (Inr ''{"success":true,"chemicals":[{"name":"Permethrin"}]}'')])) =
     Inr (JArr [JObj [(''name'', JStr ''Permethrin'')]])\<close>
    by (simp add: getChemicals_def bindIO_def returnIO_def request_responds
        sample_world_def classify_def res_ok_def or_js_def parse_or_null_def sample_lib_def
        sample_parse_def)
  from material_names_always_empty [of sample_lib
      \<open>sample_world (JStr ''t1'')
         [Responds 200 (Inr ''{"success":true,"baitTypes":[{"name":"Wax block"}]}'')]\<close>]
    material_names_always_empty [of sample_lib
      \<open>sample_world (JStr ''t1'')
         [Responds 200 (Inr ''{"success":true,"chemicals":[{"name":"Permethrin"}]}'')]\<close>]
  show ?thesis
    using bait chem by simp
qed

section \<open>The list operations\<close>

lemma mapE_map:
  "\<forall>x \<in> set xs. f x = Inr (g x) \<Longrightarrow> mapE f xs = Inr (map g xs)"
  by (induction xs) simp_all

text \<open>What each list operation does with the value the request wrapper hands it.\<close>

lemma getCustomers_run:
  "request L ''GET'' ''/customers'' JNull w = (Inr res, w') \<Longrightarrow>
   fst (getCustomers L w) =
     (if truthy res \<and> field res ''success'' = JBool False then Inr (JArr [])
      else case mapE (formatCustomer L) (customersArray res) of
             Inl e \<Rightarrow> Inl e
           | Inr ys \<Rightarrow> Inr (JArr ys))"
  by (simp add: getCustomers_def bindIO_def returnIO_def liftE_def split: sum.splits)

lemma getTechnicians_run:
  "request L ''GET'' ''/admin/technicians'' JNull w = (Inr res, w') \<Longrightarrow>
   fst (getTechnicians L w) =
     Inr (if \<not> truthy res then JArr []
          else if isArray res then res
          else if isArray (field res ''technicians'') then field res ''technicians''
          else if truthy (field res ''success'') \<and> isArray (field res ''data'') then field res ''data''
          else JArr [])"
  by (auto simp add: getTechnicians_def bindIO_def returnIO_def isArray_iff)

lemma getChemicals_run:
  "request L ''GET'' ''/materials/chemicals'' JNull w = (Inr res, w') \<Longrightarrow>
   fst (getChemicals L w) =
     Inr (if \<not> truthy res then JArr []
          else if isArray res then res
          else if isArray (field res ''chemicals'') then field res ''chemicals''
          else if truthy (field res ''success'') \<and> isArray (field res ''data'') then field res ''data''
          else JArr [])"
  by (auto simp add: getChemicals_def bindIO_def returnIO_def isArray_iff)

lemma getBaitTypes_run:
  "request L ''GET'' ''/materials/bait-types'' JNull w = (Inr res, w') \<Longrightarrow>
   fst (getBaitTypes L w) =
     Inr (if isArray res then res
          else if isArray (field res ''baitTypes'') then field res ''baitTypes''
          else if field res ''success'' = JBool True \<and> isArray (field res ''data'') then field res ''data''
          else if field res ''success'' = JBool True \<and> isArray (field res ''types'') then field res ''types''
          else JArr [])"
  by (cases res) (auto simp add: getBaitTypes_def tryCatch_def bindIO_def returnIO_def)

lemma getAppointments_run:
  "request L ''GET''
     (if URLSearchParams_toString L params \<noteq> []
      then ''/appointments?'' @ URLSearchParams_toString L params else ''/appointments'')
     JNull w = (Inr res, w') \<Longrightarrow>
   fst (getAppointments L params w) =
     (case mapE (normalizeAppointment L) (appointmentsArray res) of
        Inl e \<Rightarrow> Inl e
      | Inr ys \<Rightarrow> Inr (JArr ys))"
  by (simp add: getAppointments_def bindIO_def returnIO_def liftE_def Let_def split: sum.splits)

lemma request_ok:
  "network w = Responds st (Inr raw) # rest \<Longrightarrow> res_ok st \<Longrightarrow>
   \<exists>w'. request L verb endpoint body w =
     (Inr (or_js (parse_or_null L raw) (JObj [(''success'', JBool True)])), w')"
  by (simp add: request_responds classify_def)

lemma request_failed:
  assumes "network w = [] \<or> network w = Rejects msg # rest
     \<or> network w = Responds st (Inl msg) # rest
     \<or> (network w = Responds st (Inr raw) # rest \<and> \<not> res_ok st)"
  shows "\<exists>e s d w'.
     request L verb endpoint body w =
       (Inr (JObj [(''success'', JBool False), (''error'', e), (''networkError'', JBool True)]), w')
     \<or> request L verb endpoint body w =
       (Inr (JObj [(''success'', JBool False), (''error'', e), (''status'', s), (''data'', d)]), w')"
  using assms
  by (auto simp add: request_down request_rejects request_unreadable request_responds classify_def)

text \<open>
  C1, as the code has it. The backend answers with a 2xx status and a body that parses to
  \<open>res\<close>, holding the \<open>N\<close> elements \<open>xs\<close>. \<open>getCustomers\<close> returns the \<open>N\<close> normalized records
  of \<open>xs\<close>, in order, when \<open>res\<close> is not flagged \<open>success: false\<close> and is the bare array, or
  carries it as \<open>data\<close>, with or without \<open>success\<close>, or as \<open>customers\<close>, and every element is
  well formed: not \<open>null\<close>, with an identifier that converts to a string. A normalized record
  has \<open>customerId\<close> (the text of the first of \<open>customerId\<close>, \<open>id\<close>, \<open>customer_id\<close> that is there,
  else \<open>''\<close>), \<open>customerName\<close> (\<open>customerName\<close>, \<open>name\<close>, \<open>customer_name\<close>, else
  \<open>'Unknown Customer'\<close>), \<open>email\<close>, \<open>address\<close> and \<open>telephone\<close> (else \<open>''\<close>),
  \<open>complianceValidUntil\<close> (\<open>complianceValidUntil\<close>, \<open>compliance_valid_until\<close>, else \<open>null\<close>) and
  \<open>maps\<close> (else \<open>[]\<close>). \<open>getTechnicians\<close>, \<open>getChemicals\<close> and \<open>getBaitTypes\<close> return the \<open>N\<close>
  elements as they came, and \<open>getAppointments\<close> their images under \<open>normalizeAppointment\<close>,
  when \<open>res\<close> is the bare array, or carries it under the domain name (\<open>technicians\<close>,
  \<open>chemicals\<close>, \<open>appointments\<close>, \<open>baitTypes\<close>), or carries it as \<open>data\<close> next to a truthy
  \<open>success\<close> (\<open>success: true\<close> for \<open>getBaitTypes\<close>). The first shape that matches, in this
  order, decides.
\<close>

theorem list_operations_records:
  assumes response: "network w = Responds st (Inr raw) # rest" "res_ok st"
      "parse_or_null L raw = res"
  shows
    "(field res ''success'' \<noteq> JBool False
        \<and> (res = JArr xs \<or> field res ''data'' = JArr xs
             \<or> (\<not> isArray (field res ''data'') \<and> field res ''customers'' = JArr xs))
        \<and> (\<forall>c \<in> set xs. \<not> nullish c
              \<and> ToString (Number_toString L)
                   (coalesce (field c ''customerId'')
                      (coalesce (field c ''id'') (coalesce (field c ''customer_id'') (JStr []))))
                  = Inr (ident c))
      \<longrightarrow> fst (getCustomers L w) =
            Inr (JArr (map (\<lambda>c. JObj
              [(''customerId'', JStr (ident c)),
               (''customerName'',
                  coalesce (field c ''customerName'')
                    (coalesce (field c ''name'')
                       (coalesce (field c ''customer_name'') (JStr ''Unknown Customer'')))),
               (''email'', coalesce (field c ''email'') (JStr [])),
               (''address'', coalesce (field c ''address'') (JStr [])),
               (''telephone'', coalesce (field c ''telephone'') (JStr [])),
               (''complianceValidUntil'',
                  coalesce (field c ''complianceValidUntil'')
                    (coalesce (field c ''compliance_valid_until'') JNull)),
               (''maps'', if isArray (field c ''maps'') then field c ''maps'' else JArr [])]) xs)))
     \<and> (res = JArr xs \<or> field res ''technicians'' = JArr xs
          \<or> (\<not> isArray (field res ''technicians'') \<and> truthy (field res ''success'')
               \<and> field res ''data'' = JArr xs)
      \<longrightarrow> fst (getTechnicians L w) = Inr (JArr xs))
     \<and> (res = JArr xs \<or> field res ''chemicals'' = JArr xs
          \<or> (\<not> isArray (field res ''chemicals'') \<and> truthy (field res ''success'')
               \<and> field res ''data'' = JArr xs)
      \<longrightarrow> fst (getChemicals L w) = Inr (JArr xs))
     \<and> ((res = JArr xs \<or> field res ''appointments'' = JArr xs
           \<or> (\<not> isArray (field res ''appointments'') \<and> truthy (field res ''success'')
                \<and> field res ''data'' = JArr xs))
          \<and> (\<forall>a \<in> set xs. normalizeAppointment L a = Inr (normal a))
      \<longrightarrow> fst (getAppointments L params w) = Inr (JArr (map normal xs)))
     \<and> (res = JArr xs \<or> field res ''baitTypes'' = JArr xs
          \<or> (\<not> isArray (field res ''baitTypes'') \<and> field res ''success'' = JBool True
               \<and> field res ''data'' = JArr xs)
      \<longrightarrow> fst (getBaitTypes L w) = Inr (JArr xs))"
proof -
  let ?normalized = "\<lambda>c. JObj
              [(''customerId'', JStr (ident c)),
               (''customerName'',
                  coalesce (field c ''customerName'')
                    (coalesce (field c ''name'')
                       (coalesce (field c ''customer_name'') (JStr ''Unknown Customer'')))),
               (''email'', coalesce (field c ''email'') (JStr [])),
               (''address'', coalesce (field c ''address'') (JStr [])),
               (''telephone'', coalesce (field c ''telephone'') (JStr [])),
               (''complianceValidUntil'',
                  coalesce (field c ''complianceValidUntil'')
                    (coalesce (field c ''compliance_valid_until'') JNull)),
               (''maps'', if isArray (field c ''maps'') then field c ''maps'' else JArr [])]"
  have returned: "\<exists>w'. request L verb endpoint JNull w =
      (Inr (or_js res (JObj [(''success'', JBool True)])), w')" for verb endpoint
    using request_ok [OF response(1,2), of L verb endpoint JNull]
    unfolding response(3) by blast
  have customers: "fst (getCustomers L w) = Inr (JArr (map ?normalized xs))"
    if shape: "field res ''success'' \<noteq> JBool False
        \<and> (res = JArr xs \<or> field res ''data'' = JArr xs
             \<or> (\<not> isArray (field res ''data'') \<and> field res ''customers'' = JArr xs))"
      and wellformed: "\<forall>c \<in> set xs. \<not> nullish c
              \<and> ToString (Number_toString L)
                   (coalesce (field c ''customerId'')
                      (coalesce (field c ''id'') (coalesce (field c ''customer_id'') (JStr []))))
                  = Inr (ident c)"
  proof -
    from shape have "truthy res"
      by (cases res) auto
    moreover from shape have "customersArray res = xs"
      by (cases res) (auto simp add: customersArray_def)
    moreover have "mapE (formatCustomer L) xs = Inr (map ?normalized xs)"
      using wellformed by (intro mapE_map) (simp add: formatCustomer_def)
    moreover obtain w' where "request L ''GET'' ''/customers'' JNull w =
        (Inr (or_js res (JObj [(''success'', JBool True)])), w')"
      using returned by blast
    ultimately show ?thesis
      using shape by (simp add: getCustomers_run or_js_def)
  qed
  have technicians: "res = JArr xs \<or> field res ''technicians'' = JArr xs
          \<or> (\<not> isArray (field res ''technicians'') \<and> truthy (field res ''success'')
               \<and> field res ''data'' = JArr xs)
      \<longrightarrow> fst (getTechnicians L w) = Inr (JArr xs)"
  proof -
    obtain w' where "request L ''GET'' ''/admin/technicians'' JNull w =
        (Inr (or_js res (JObj [(''success'', JBool True)])), w')"
      using returned by blast
    then show ?thesis
      by (cases res) (auto simp add: getTechnicians_run or_js_def)
  qed
  have chemicals: "res = JArr xs \<or> field res ''chemicals'' = JArr xs
          \<or> (\<not> isArray (field res ''chemicals'') \<and> truthy (field res ''success'')
               \<and> field res ''data'' = JArr xs)
      \<longrightarrow> fst (getChemicals L w) = Inr (JArr xs)"
  proof -
    obtain w' where "request L ''GET'' ''/materials/chemicals'' JNull w =
        (Inr (or_js res (JObj [(''success'', JBool True)])), w')"
      using returned by blast
    then show ?thesis
      by (cases res) (auto simp add: getChemicals_run or_js_def)
  qed
  have appointments: "fst (getAppointments L params w) = Inr (JArr (map normal xs))"
    if shape: "res = JArr xs \<or> field res ''appointments'' = JArr xs
          \<or> (\<not> isArray (field res ''appointments'') \<and> truthy (field res ''success'')
               \<and> field res ''data'' = JArr xs)"
      and wellformed: "\<forall>a \<in> set xs. normalizeAppointment L a = Inr (normal a)"
  proof -
    from shape have "truthy res"
      by (cases res) auto
    moreover from shape have "appointmentsArray res = xs"
      by (cases res) (auto simp add: appointmentsArray_def)
    moreover have "mapE (normalizeAppointment L) xs = Inr (map normal xs)"
      using wellformed by (rule mapE_map)
    moreover obtain w' where "request L ''GET''
        (if URLSearchParams_toString L params \<noteq> []
         then ''/appointments?'' @ URLSearchParams_toString L params else ''/appointments'')
        JNull w = (Inr (or_js res (JObj [(''success'', JBool True)])), w')"
      using returned by blast
    ultimately show ?thesis
      by (simp add: getAppointments_run or_js_def)
  qed
  have baits: "res = JArr xs \<or> field res ''baitTypes'' = JArr xs
          \<or> (\<not> isArray (field res ''baitTypes'') \<and> field res ''success'' = JBool True
               \<and> field res ''data'' = JArr xs)
      \<longrightarrow> fst (getBaitTypes L w) = Inr (JArr xs)"
  proof -
    obtain w' where "request L ''GET'' ''/materials/bait-types'' JNull w =
        (Inr (or_js res (JObj [(''success'', JBool True)])), w')"
      using returned by blast
    then show ?thesis
      by (cases res) (auto simp add: getBaitTypes_run or_js_def)
  qed
  from customers technicians chemicals appointments baits show ?thesis
    by blast
qed

text \<open>
  The customer of the specification's example, two customers under \<open>customers\<close>, and one
  response for each of the other operations.
\<close>

theorem list_operations_records_witness:
  \<open>fst (getCustomers sample_lib (sample_world (JStr ''t1'') [Responds 200 (Inr ''[{"id":"5","name":"Acme","compliance_valid_until":"2025-01-01"}]'')])) =
        Inr (JArr [JObj [(''customerId'', JStr ''5''), (''customerName'', JStr ''Acme''),
                         (''email'', JStr []), (''address'', JStr []), (''telephone'', JStr []),
                         (''complianceValidUntil'', JStr ''2025-01-01''), (''maps'', JArr [])]])
   \<and> fst (getCustomers sample_lib (sample_world (JStr ''t1'') [Responds 200 (Inr ''{"customers":[{"customerId":7,"maps":[{"mapId":1}]},{"customer_id":"c9","email":"a@b.c"}]}'')])) =
        Inr (JArr [JObj [(''customerId'', JStr ''7''), (''customerName'', JStr ''Unknown Customer''),
                         (''email'', JStr []), (''address'', JStr []), (''telephone'', JStr []),
                         (''complianceValidUntil'', JNull),
                         (''maps'', JArr [JObj [(''mapId'', JNum 1)]])],
                   JObj [(''customerId'', JStr ''c9''), (''customerName'', JStr ''Unknown Customer''),
                         (''email'', JStr ''a@b.c''), (''address'', JStr []), (''telephone'', JStr []),
                         (''complianceValidUntil'', JNull), (''maps'', JArr [])]])
   \<and> fst (getTechnicians sample_lib (sample_world (JStr ''t1'') [Responds 200 (Inr ''{"technicians":[{"id":1}]}'')])) = Inr (JArr [JObj [(''id'', JNum 1)]])
   \<and> fst (getChemicals sample_lib (sample_world (JStr ''t1'') [Responds 200 (Inr ''{"success":true,"data":[{"id":1},{"id":2}]}'')])) =
        Inr (JArr [JObj [(''id'', JNum 1)], JObj [(''id'', JNum 2)]])
   \<and> fst (getAppointments sample_lib (JObj []) (sample_world (JStr ''t1'') [Responds 200 (Inr ''{"appointments":[{"id":1}]}'')])) = Inr (JArr [JObj [(''id'', JNum 1)]])
   \<and> fst (getBaitTypes sample_lib (sample_world (JStr ''t1'') [Responds 200 (Inr ''{"success":true,"baitTypes":[{"name":"Wax block"}]}'')])) = Inr (JArr [JObj [(''name'', JStr ''Wax block'')]])\<close>
proof -
  have ok: "res_ok 200"
    by (simp add: res_ok_def)
  have seven: "string_of_int 7 = ''7''"
    by code_simp
  have example: \<open>fst (getCustomers sample_lib (sample_world (JStr ''t1'') [Responds 200 (Inr ''[{"id":"5","name":"Acme","compliance_valid_until":"2025-01-01"}]'')])) =
        Inr (JArr [JObj [(''customerId'', JStr ''5''), (''customerName'', JStr ''Acme''),
                         (''email'', JStr []), (''address'', JStr []), (''telephone'', JStr []),
                         (''complianceValidUntil'', JStr ''2025-01-01''), (''maps'', JArr [])]])\<close>
  proof -
    have net: \<open>network (sample_world (JStr ''t1'') [Responds 200 (Inr ''[{"id":"5","name":"Acme","compliance_valid_until":"2025-01-01"}]'')]) =
        Responds 200 (Inr ''[{"id":"5","name":"Acme","compliance_valid_until":"2025-01-01"}]'') # []\<close>
      by (simp add: sample_world_def)
    have parsed: \<open>parse_or_null sample_lib ''[{"id":"5","name":"Acme","compliance_valid_until":"2025-01-01"}]'' =
        JArr [JObj [(''id'', JStr ''5''), (''name'', JStr ''Acme''), (''compliance_valid_until'', JStr ''2025-01-01'')]]\<close>
      by (simp add: parse_or_null_def sample_lib_def sample_parse_def)
    from list_operations_records [OF net ok parsed, of "[JObj [(''id'', JStr ''5''), (''name'', JStr ''Acme''), (''compliance_valid_until'', JStr ''2025-01-01'')]]"
        "(\<lambda>c. ''5'')" "(\<lambda>a. a)" "JObj []"]
    show ?thesis
      by (simp add: coalesce_def sample_lib_def)
  qed
  have customers: \<open>fst (getCustomers sample_lib (sample_world (JStr ''t1'') [Responds 200 (Inr ''{"customers":[{"customerId":7,"maps":[{"mapId":1}]},{"customer_id":"c9","email":"a@b.c"}]}'')])) =
        Inr (JArr [JObj [(''customerId'', JStr ''7''), (''customerName'', JStr ''Unknown Customer''),
                         (''email'', JStr []), (''address'', JStr []), (''telephone'', JStr []),
                         (''complianceValidUntil'', JNull),
                         (''maps'', JArr [JObj [(''mapId'', JNum 1)]])],
                   JObj [(''customerId'', JStr ''c9''), (''customerName'', JStr ''Unknown Customer''),
                         (''email'', JStr ''a@b.c''), (''address'', JStr []), (''telephone'', JStr []),
                         (''complianceValidUntil'', JNull), (''maps'', JArr [])]])\<close>
  proof -
    have net: \<open>network (sample_world (JStr ''t1'') [Responds 200 (Inr ''{"customers":[{"customerId":7,"maps":[{"mapId":1}]},{"customer_id":"c9","email":"a@b.c"}]}'')]) =
        Responds 200 (Inr ''{"customers":[{"customerId":7,"maps":[{"mapId":1}]},{"customer_id":"c9","email":"a@b.c"}]}'') # []\<close>
      by (simp add: sample_world_def)
    have parsed: \<open>parse_or_null sample_lib ''{"customers":[{"customerId":7,"maps":[{"mapId":1}]},{"customer_id":"c9","email":"a@b.c"}]}'' =
        JObj [(''customers'', JArr [JObj [(''customerId'', JNum 7), (''maps'', JArr [JObj [(''mapId'', JNum 1)]])], JObj [(''customer_id'', JStr ''c9''), (''email'', JStr ''a@b.c'')]])]\<close>
      by (simp add: parse_or_null_def sample_lib_def sample_parse_def)
    from list_operations_records [OF net ok parsed, of "[JObj [(''customerId'', JNum 7), (''maps'', JArr [JObj [(''mapId'', JNum 1)]])], JObj [(''customer_id'', JStr ''c9''), (''email'', JStr ''a@b.c'')]]"
        "(\<lambda>c. if field c ''customerId'' = JNum 7 then ''7'' else ''c9'')" "(\<lambda>a. a)" "JObj []"]
    show ?thesis
      by (simp add: coalesce_def sample_lib_def seven)
  qed
  have technicians: \<open>fst (getTechnicians sample_lib (sample_world (JStr ''t1'') [Responds 200 (Inr ''{"technicians":[{"id":1}]}'')])) = Inr (JArr [JObj [(''id'', JNum 1)]])\<close>
  proof -
    have net: \<open>network (sample_world (JStr ''t1'') [Responds 200 (Inr ''{"technicians":[{"id":1}]}'')]) =
        Responds 200 (Inr ''{"technicians":[{"id":1}]}'') # []\<close>
      by (simp add: sample_world_def)
    have parsed: \<open>parse_or_null sample_lib ''{"technicians":[{"id":1}]}'' =
        JObj [(''technicians'', JArr [JObj [(''id'', JNum 1)]])]\<close>
      by (simp add: parse_or_null_def sample_lib_def sample_parse_def)
    from list_operations_records [OF net ok parsed, of "[JObj [(''id'', JNum 1)]]"
        "(\<lambda>c. [])" "(\<lambda>a. a)" "JObj []"]
    show ?thesis
      by (simp add: coalesce_def sample_lib_def)
  qed
  have chemicals: \<open>fst (getChemicals sample_lib (sample_world (JStr ''t1'') [Responds 200 (Inr ''{"success":true,"data":[{"id":1},{"id":2}]}'')])) =
        Inr (JArr [JObj [(''id'', JNum 1)], JObj [(''id'', JNum 2)]])\<close>
  proof -
    have net: \<open>network (sample_world (JStr ''t1'') [Responds 200 (Inr ''{"success":true,"data":[{"id":1},{"id":2}]}'')]) =
        Responds 200 (Inr ''{"success":true,"data":[{"id":1},{"id":2}]}'') # []\<close>
      by (simp add: sample_world_def)
    have parsed: \<open>parse_or_null sample_lib ''{"success":true,"data":[{"id":1},{"id":2}]}'' =
        JObj [(''success'', JBool True), (''data'', JArr [JObj [(''id'', JNum 1)], JObj [(''id'', JNum 2)]])]\<close>
      by (simp add: parse_or_null_def sample_lib_def sample_parse_def)
    from list_operations_records [OF net ok parsed, of "[JObj [(''id'', JNum 1)], JObj [(''id'', JNum 2)]]"
        "(\<lambda>c. [])" "(\<lambda>a. a)" "JObj []"]
    show ?thesis
      by (simp add: coalesce_def sample_lib_def)
  qed
  have appointments: \<open>fst (getAppointments sample_lib (JObj []) (sample_world (JStr ''t1'') [Responds 200 (Inr ''{"appointments":[{"id":1}]}'')])) = Inr (JArr [JObj [(''id'', JNum 1)]])\<close>
  proof -
    have net: \<open>network (sample_world (JStr ''t1'') [Responds 200 (Inr ''{"appointments":[{"id":1}]}'')]) =
        Responds 200 (Inr ''{"appointments":[{"id":1}]}'') # []\<close>
      by (simp add: sample_world_def)
    have parsed: \<open>parse_or_null sample_lib ''{"appointments":[{"id":1}]}'' =
        JObj [(''appointments'', JArr [JObj [(''id'', JNum 1)]])]\<close>
      by (simp add: parse_or_null_def sample_lib_def sample_parse_def)
    from list_operations_records [OF net ok parsed, of "[JObj [(''id'', JNum 1)]]"
        "(\<lambda>c. [])" "(\<lambda>a. a)" "JObj []"]
    show ?thesis
      by (simp add: coalesce_def sample_lib_def)
  qed
  have baits: \<open>fst (getBaitTypes sample_lib (sample_world (JStr ''t1'') [Responds 200 (Inr ''{"success":true,"baitTypes":[{"name":"Wax block"}]}'')])) = Inr (JArr [JObj [(''name'', JStr ''Wax block'')]])\<close>
  proof -
    have net: \<open>network (sample_world (JStr ''t1'') [Responds 200 (Inr ''{"success":true,"baitTypes":[{"name":"Wax block"}]}'')]) =
        Responds 200 (Inr ''{"success":true,"baitTypes":[{"name":"Wax block"}]}'') # []\<close>
      by (simp add: sample_world_def)
    have parsed: \<open>parse_or_null sample_lib ''{"success":true,"baitTypes":[{"name":"Wax block"}]}'' =
        JObj [(''success'', JBool True), (''baitTypes'', JArr [JObj [(''name'', JStr ''Wax block'')]])]\<close>
      by (simp add: parse_or_null_def sample_lib_def sample_parse_def)
    from list_operations_records [OF net ok parsed, of "[JObj [(''name'', JStr ''Wax block'')]]"
        "(\<lambda>c. [])" "(\<lambda>a. a)" "JObj []"]
    show ?thesis
      by (simp add: coalesce_def sample_lib_def)
  qed
  from example customers technicians chemicals appointments baits show ?thesis
    by blast
qed

text \<open>
  Against the wording of C1: a \<open>data\<close> array of one element without a \<open>success\<close> field is
  one of the four shapes, and \<open>getTechnicians\<close> returns no element.
\<close>

theorem list_operations_records_counterexample:
  \<open>elems (field (parse_or_null sample_lib ''{"data":[{}]}'') ''data'') = [JObj []]
   \<and> fst (getTechnicians sample_lib
            (sample_world (JStr ''t1'') [Responds 200 (Inr ''{"data":[{}]}'')])) = Inr (JArr [])\<close>
  by (simp add: getTechnicians_def bindIO_def returnIO_def request_responds sample_world_def
      classify_def res_ok_def or_js_def parse_or_null_def sample_lib_def sample_parse_def)

text \<open>
  C2, as the code has it. No list operation raises, and each returns the empty array, when
  the transport fails (network failure, unreadable body, non-2xx status), and when a 2xx
  body matches none of the operation's shapes. A 2xx body flagged \<open>success: false\<close> gives the
  empty array in \<open>getCustomers\<close> whatever else it holds, and in the other four operations
  unless it carries an array under the domain name.
\<close>

theorem list_operations_empty:
  "((network w = [] \<or> network w = Rejects msg # rest
      \<or> network w = Responds st (Inl msg) # rest
      \<or> (network w = Responds st (Inr raw) # rest \<and> \<not> res_ok st))
    \<longrightarrow> fst (getCustomers L w) = Inr (JArr [])
        \<and> fst (getTechnicians L w) = Inr (JArr [])
        \<and> fst (getChemicals L w) = Inr (JArr [])
        \<and> fst (getAppointments L params w) = Inr (JArr [])
        \<and> fst (getBaitTypes L w) = Inr (JArr []))
   \<and> (network w = Responds st (Inr raw) # rest \<and> res_ok st \<and> parse_or_null L raw = res
    \<longrightarrow> (field res ''success'' = JBool False
           \<or> (\<not> isArray res \<and> \<not> isArray (field res ''data'')
                \<and> \<not> isArray (field res ''customers''))
          \<longrightarrow> fst (getCustomers L w) = Inr (JArr []))
        \<and> (\<not> isArray res \<and> \<not> isArray (field res ''technicians'')
             \<and> (\<not> truthy (field res ''success'') \<or> \<not> isArray (field res ''data''))
          \<longrightarrow> fst (getTechnicians L w) = Inr (JArr []))
        \<and> (\<not> isArray res \<and> \<not> isArray (field res ''chemicals'')
             \<and> (\<not> truthy (field res ''success'') \<or> \<not> isArray (field res ''data''))
          \<longrightarrow> fst (getChemicals L w) = Inr (JArr []))
        \<and> (\<not> isArray res \<and> \<not> isArray (field res ''appointments'')
             \<and> (\<not> truthy (field res ''success'') \<or> \<not> isArray (field res ''data''))
          \<longrightarrow> fst (getAppointments L params w) = Inr (JArr []))
        \<and> (\<not> isArray res \<and> \<not> isArray (field res ''baitTypes'')
             \<and> (field res ''success'' \<noteq> JBool True
                  \<or> (\<not> isArray (field res ''data'') \<and> \<not> isArray (field res ''types'')))
          \<longrightarrow> fst (getBaitTypes L w) = Inr (JArr [])))"
proof -
  have failed: "fst (getCustomers L w) = Inr (JArr [])
        \<and> fst (getTechnicians L w) = Inr (JArr [])
        \<and> fst (getChemicals L w) = Inr (JArr [])
        \<and> fst (getAppointments L params w) = Inr (JArr [])
        \<and> fst (getBaitTypes L w) = Inr (JArr [])"
    if down: "network w = [] \<or> network w = Rejects msg # rest
      \<or> network w = Responds st (Inl msg) # rest
      \<or> (network w = Responds st (Inr raw) # rest \<and> \<not> res_ok st)"
  proof -
    have envelope: "\<exists>e s d w'.
       request L verb endpoint JNull w =
         (Inr (JObj [(''success'', JBool False), (''error'', e), (''networkError'', JBool True)]), w')
       \<or> request L verb endpoint JNull w =
         (Inr (JObj [(''success'', JBool False), (''error'', e), (''status'', s), (''data'', d)]), w')"
      for verb endpoint
      using request_failed [OF down] by blast
    have "fst (getCustomers L w) = Inr (JArr [])"
      using envelope [of "''GET''" "''/customers''"]
      by (auto simp add: getCustomers_run)
    moreover have "fst (getTechnicians L w) = Inr (JArr [])"
      using envelope [of "''GET''" "''/admin/technicians''"]
      by (auto simp add: getTechnicians_run)
    moreover have "fst (getChemicals L w) = Inr (JArr [])"
      using envelope [of "''GET''" "''/materials/chemicals''"]
      by (auto simp add: getChemicals_run)
    moreover have "fst (getAppointments L params w) = Inr (JArr [])"
      using envelope [of "''GET''" "if URLSearchParams_toString L params \<noteq> []
         then ''/appointments?'' @ URLSearchParams_toString L params else ''/appointments''"]
      by (auto simp add: getAppointments_run appointmentsArray_def)
    moreover have "fst (getBaitTypes L w) = Inr (JArr [])"
      using envelope [of "''GET''" "''/materials/bait-types''"]
      by (auto simp add: getBaitTypes_run)
    ultimately show ?thesis
      by blast
  qed
  have answered: "(field res ''success'' = JBool False
           \<or> (\<not> isArray res \<and> \<not> isArray (field res ''data'')
                \<and> \<not> isArray (field res ''customers''))
          \<longrightarrow> fst (getCustomers L w) = Inr (JArr []))
        \<and> (\<not> isArray res \<and> \<not> isArray (field res ''technicians'')
             \<and> (\<not> truthy (field res ''success'') \<or> \<not> isArray (field res ''data''))
          \<longrightarrow> fst (getTechnicians L w) = Inr (JArr []))
        \<and> (\<not> isArray res \<and> \<not> isArray (field res ''chemicals'')
             \<and> (\<not> truthy (field res ''success'') \<or> \<not> isArray (field res ''data''))
          \<longrightarrow> fst (getChemicals L w) = Inr (JArr []))
        \<and> (\<not> isArray res \<and> \<not> isArray (field res ''appointments'')
             \<and> (\<not> truthy (field res ''success'') \<or> \<not> isArray (field res ''data''))
          \<longrightarrow> fst (getAppointments L params w) = Inr (JArr []))
        \<and> (\<not> isArray res \<and> \<not> isArray (field res ''baitTypes'')
             \<and> (field res ''success'' \<noteq> JBool True
                  \<or> (\<not> isArray (field res ''data'') \<and> \<not> isArray (field res ''types'')))
          \<longrightarrow> fst (getBaitTypes L w) = Inr (JArr []))"
    if up: "network w = Responds st (Inr raw) # rest \<and> res_ok st \<and> parse_or_null L raw = res"
  proof -
    have returned: "\<exists>w'. request L verb endpoint JNull w =
        (Inr (or_js res (JObj [(''success'', JBool True)])), w')" for verb endpoint
      using up request_ok [of w st raw rest L verb endpoint JNull] by auto
    have customers: "field res ''success'' = JBool False
           \<or> (\<not> isArray res \<and> \<not> isArray (field res ''data'')
                \<and> \<not> isArray (field res ''customers''))
          \<longrightarrow> fst (getCustomers L w) = Inr (JArr [])"
      using returned [of "''GET''" "''/customers''"]
      by (cases res) (auto simp add: getCustomers_run or_js_def customersArray_def)
    have technicians: "\<not> isArray res \<and> \<not> isArray (field res ''technicians'')
             \<and> (\<not> truthy (field res ''success'') \<or> \<not> isArray (field res ''data''))
          \<longrightarrow> fst (getTechnicians L w) = Inr (JArr [])"
      using returned [of "''GET''" "''/admin/technicians''"]
      by (cases res) (auto simp add: getTechnicians_run or_js_def)
    have chemicals: "\<not> isArray res \<and> \<not> isArray (field res ''chemicals'')
             \<and> (\<not> truthy (field res ''success'') \<or> \<not> isArray (field res ''data''))
          \<longrightarrow> fst (getChemicals L w) = Inr (JArr [])"
      using returned [of "''GET''" "''/materials/chemicals''"]
      by (cases res) (auto simp add: getChemicals_run or_js_def)
    have appointments: "\<not> isArray res \<and> \<not> isArray (field res ''appointments'')
             \<and> (\<not> truthy (field res ''success'') \<or> \<not> isArray (field res ''data''))
          \<longrightarrow> fst (getAppointments L params w) = Inr (JArr [])"
      using returned [of "''GET''" "if URLSearchParams_toString L params \<noteq> []
         then ''/appointments?'' @ URLSearchParams_toString L params else ''/appointments''"]
      by (cases res) (auto simp add: getAppointments_run or_js_def appointmentsArray_def)
    have baits: "\<not> isArray res \<and> \<not> isArray (field res ''baitTypes'')
             \<and> (field res ''success'' \<noteq> JBool True
                  \<or> (\<not> isArray (field res ''data'') \<and> \<not> isArray (field res ''types'')))
          \<longrightarrow> fst (getBaitTypes L w) = Inr (JArr [])"
      using returned [of "''GET''" "''/materials/bait-types''"]
      by (cases res) (auto simp add: getBaitTypes_run or_js_def)
    from customers technicians chemicals appointments baits show ?thesis
      by blast
  qed
  from failed answered show ?thesis
    by blast
qed

text \<open>A 404 response, and a 200 response with the body \<open>{"success":false}\<close>.\<close>

theorem list_operations_empty_witness:
  \<open>fst (getCustomers sample_lib
          (sample_world (JStr ''t1'') [Responds 404 (Inr ''{"error":"Not found"}'')])) = Inr (JArr [])
   \<and> fst (getTechnicians sample_lib
          (sample_world (JStr ''t1'') [Responds 404 (Inr ''{"error":"Not found"}'')])) = Inr (JArr [])
   \<and> fst (getChemicals sample_lib
          (sample_world (JStr ''t1'') [Responds 404 (Inr ''{"error":"Not found"}'')])) = Inr (JArr [])
   \<and> fst (getAppointments sample_lib (JObj [])
          (sample_world (JStr ''t1'') [Responds 404 (Inr ''{"error":"Not found"}'')])) = Inr (JArr [])
   \<and> fst (getBaitTypes sample_lib
          (sample_world (JStr ''t1'') [Responds 404 (Inr ''{"error":"Not found"}'')])) = Inr (JArr [])
   \<and> fst (getCustomers sample_lib
          (sample_world (JStr ''t1'') [Responds 200 (Inr ''{"success":false}'')])) = Inr (JArr [])
   \<and> fst (getTechnicians sample_lib
          (sample_world (JStr ''t1'') [Responds 200 (Inr ''{"success":false}'')])) = Inr (JArr [])
   \<and> fst (getChemicals sample_lib
          (sample_world (JStr ''t1'') [Responds 200 (Inr ''{"success":false}'')])) = Inr (JArr [])
   \<and> fst (getAppointments sample_lib (JObj [])
          (sample_world (JStr ''t1'') [Responds 200 (Inr ''{"success":false}'')])) = Inr (JArr [])
   \<and> fst (getBaitTypes sample_lib
          (sample_world (JStr ''t1'') [Responds 200 (Inr ''{"success":false}'')])) = Inr (JArr [])\<close>
proof -
  have refused: \<open>network (sample_world (JStr ''t1'') [Responds 404 (Inr ''{"error":"Not found"}'')]) =
      Responds 404 (Inr ''{"error":"Not found"}'') # [] \<and> \<not> res_ok 404\<close>
    by (simp add: sample_world_def res_ok_def)
  have answered: \<open>network (sample_world (JStr ''t1'') [Responds 200 (Inr ''{"success":false}'')]) =
      Responds 200 (Inr ''{"success":false}'') # [] \<and> res_ok 200
      \<and> parse_or_null sample_lib ''{"success":false}'' = JObj [(''success'', JBool False)]\<close>
    by (simp add: sample_world_def res_ok_def parse_or_null_def sample_lib_def sample_parse_def)
  from list_operations_empty [of \<open>sample_world (JStr ''t1'') [Responds 404 (Inr ''{"error":"Not found"}'')]\<close>
      "''none''" "[]" 404 \<open>''{"error":"Not found"}''\<close> sample_lib "JObj []" JNull]
    list_operations_empty [of \<open>sample_world (JStr ''t1'') [Responds 200 (Inr ''{"success":false}'')]\<close>
      "''none''" "[]" 200 \<open>''{"success":false}''\<close> sample_lib "JObj []"
      "JObj [(''success'', JBool False)]"]
  show ?thesis
    using refused answered by simp
qed

text \<open>
  Against the wording of C2: a 2xx body flagged \<open>success: false\<close> that carries a
  \<open>technicians\<close> array; \<open>getTechnicians\<close> returns that array, not the empty one.
\<close>

theorem list_operations_empty_counterexample:
  \<open>field (parse_or_null sample_lib ''{"success":false,"technicians":[{}]}'') ''success'' = JBool False
   \<and> fst (getTechnicians sample_lib
            (sample_world (JStr ''t1'')
               [Responds 200 (Inr ''{"success":false,"technicians":[{}]}'')])) \<noteq> Inr (JArr [])\<close>
  by (simp add: getTechnicians_def bindIO_def returnIO_def request_responds sample_world_def
      classify_def res_ok_def or_js_def parse_or_null_def sample_lib_def sample_parse_def)

end
